theory Spec2Isabelle
  imports Complex_Main "HOL-Library.Sublist"
begin

section \<open>JavaScript values\<close>

text \<open>
  The analysis code of \<^verbatim>\<open>server.js\<close> and \<^verbatim>\<open>app.js\<close> handles values that come out of
  \<^verbatim>\<open>JSON.parse\<close> and \<^verbatim>\<open>response.json()\<close>. A JSON value is one of the six JSON kinds; a
  JavaScript value that may also be \<^verbatim>\<open>undefined\<close> is a \<open>json option\<close>, with \<open>None\<close> for
  \<^verbatim>\<open>undefined\<close>. Objects keep their members as an association list in insertion order.
  Numbers carry the value of the literal; no function below computes with them.
\<close>

datatype json =
    JNull
  | JBool bool
  | JNum rat
  | JStr string
  | JArr "json list"
  | JObj "(string \<times> json) list"

text \<open>
  What the code can throw: \<^verbatim>\<open>new Error(message)\<close>, the runtime's \<^verbatim>\<open>TypeError\<close> (a member
  read on \<^verbatim>\<open>undefined\<close> or \<^verbatim>\<open>null\<close>, a call of something that is no function), the
  \<^verbatim>\<open>SyntaxError\<close> of \<^verbatim>\<open>JSON.parse\<close>, and a rejected \<^verbatim>\<open>fetch\<close> or body read.
\<close>

datatype exn =
    Error string
  | TypeError
  | SyntaxError
  | FetchFailed

definition exn_bind :: "exn + 'a \<Rightarrow> ('a \<Rightarrow> exn + 'b) \<Rightarrow> exn + 'b" where
  "exn_bind r f = (case r of Inl e \<Rightarrow> Inl e | Inr v \<Rightarrow> f v)"

text \<open>JavaScript truthiness, as \<^verbatim>\<open>!v\<close> and \<^verbatim>\<open>a && b\<close> and \<^verbatim>\<open>a || b\<close> read it.\<close>

fun truthy :: "json option \<Rightarrow> bool" where
  "truthy None = False"
| "truthy (Some JNull) = False"
| "truthy (Some (JBool b)) = b"
| "truthy (Some (JNum q)) = (q \<noteq> 0)"
| "truthy (Some (JStr s)) = (s \<noteq> [])"
| "truthy (Some (JArr xs)) = True"
| "truthy (Some (JObj kv)) = True"

text \<open>
  The member read \<^verbatim>\<open>v.k\<close>, for the member names the code uses (none of them is a member
  of a built-in prototype): a \<^verbatim>\<open>TypeError\<close> on \<^verbatim>\<open>undefined\<close> and \<^verbatim>\<open>null\<close>, the member or
  \<^verbatim>\<open>undefined\<close> on an object, \<^verbatim>\<open>undefined\<close> on every other value.
\<close>

fun get_prop :: "json option \<Rightarrow> string \<Rightarrow> exn + json option" where
  "get_prop None k = Inl TypeError"
| "get_prop (Some JNull) k = Inl TypeError"
| "get_prop (Some (JObj kv)) k = Inr (map_of kv k)"
| "get_prop (Some (JBool b)) k = Inr None"
| "get_prop (Some (JNum q)) k = Inr None"
| "get_prop (Some (JStr s)) k = Inr None"
| "get_prop (Some (JArr xs)) k = Inr None"

text \<open>The element read \<^verbatim>\<open>v[0]\<close>.\<close>

fun get_index0 :: "json option \<Rightarrow> exn + json option" where
  "get_index0 None = Inl TypeError"
| "get_index0 (Some JNull) = Inl TypeError"
| "get_index0 (Some (JArr xs)) = Inr (case xs of [] \<Rightarrow> None | x # _ \<Rightarrow> Some x)"
| "get_index0 (Some (JObj kv)) = Inr (map_of kv ''0'')"
| "get_index0 (Some (JStr s)) = Inr (case s of [] \<Rightarrow> None | c # _ \<Rightarrow> Some (JStr [c]))"
| "get_index0 (Some (JBool b)) = Inr None"
| "get_index0 (Some (JNum q)) = Inr None"

section \<open>API key validation (server.js)\<close>

definition placeholder_key :: string where
  "placeholder_key = ''pplx-xxxxxxxxxxxxxxxxxxxxxxxxxxxxxxxxxxxxxxxx''"

text \<open>
  \<^verbatim>\<open>isValidAPIKey\<close> and \<^verbatim>\<open>isValidGeminiAPIKey\<close> return the value of an \<^verbatim>\<open>&&\<close> chain that
  starts with the key itself: an absent key gives \<^verbatim>\<open>undefined\<close>, the empty key gives the
  empty string, every other key gives a boolean. The key is an environment variable: a
  string or absent.
\<close>

definition isValidAPIKey :: "string option \<Rightarrow> json option" where
  "isValidAPIKey apiKey =
     (case apiKey of
        None \<Rightarrow> None
      | Some k \<Rightarrow>
          if k = [] then Some (JStr k)
          else Some (JBool (k \<noteq> placeholder_key \<and> prefix ''pplx-'' k \<and> length k > 20)))"

definition isValidGeminiAPIKey :: "string option \<Rightarrow> json option" where
  "isValidGeminiAPIKey apiKey =
     (case apiKey of
        None \<Rightarrow> None
      | Some k \<Rightarrow>
          if k = [] then Some (JStr k)
          else Some (JBool (prefix ''AIza'' k \<and> length k > 20)))"

section \<open>Reading the provider's reply (server.js)\<close>

text \<open>
  \<^verbatim>\<open>analysisText.match(/\{[\s\S]*\}/)\<close>: the match starts at the first opening brace and,
  the star being greedy, ends at the last closing brace after it. When no closing brace
  follows the first opening brace, none follows a later one either, and there is no match.
\<close>

definition match_braces :: "string \<Rightarrow> string option" where
  "match_braces s =
     (case dropWhile (\<lambda>c. c \<noteq> CHR ''{'') s of
        [] \<Rightarrow> None
      | c # rest \<Rightarrow>
          (case rev (dropWhile (\<lambda>c. c \<noteq> CHR ''}'') (rev rest)) of
             [] \<Rightarrow> None
           | d # ds \<Rightarrow> Some (c # d # ds)))"

definition undetermined_result :: json where
  "undetermined_result = JObj
     [(''foodDetected'', JBool False),
      (''message'', JStr ''Unable to determine if food is present. Please take a clear photo of food items.'')]"

definition no_json_result :: json where
  "no_json_result = JObj
     [(''foodDetected'', JBool False),
      (''message'', JStr ''Unable to analyze image. Please take a clear photo of food items.'')]"

definition parse_error_result :: json where
  "parse_error_result = JObj
     [(''foodDetected'', JBool False),
      (''message'', JStr ''Error analyzing image. Please try again with a clear photo of food items.'')]"

text \<open>
  The body of the \<^verbatim>\<open>try\<close> block that ends \<^verbatim>\<open>analyzeWithGemini\<close> (lines 392 to 420).
  \<^verbatim>\<open>JSON.parse\<close> is the runtime's: it is the parameter \<open>parse\<close>, \<open>None\<close> when it throws.
  \<^verbatim>\<open>analysisText\<close> is whatever the reply holds at the text's place; \<^verbatim>\<open>.match\<close> exists on
  strings only.
\<close>

definition analyzeWithGemini_try :: "(string \<Rightarrow> json option) \<Rightarrow> json option \<Rightarrow> exn + json" where
  "analyzeWithGemini_try parse analysisText =
     (case analysisText of
        Some (JStr s) \<Rightarrow>
          (case match_braces s of
             Some m \<Rightarrow>
               (case parse m of
                  None \<Rightarrow> Inl SyntaxError
                | Some parsedResult \<Rightarrow>
                    exn_bind (get_prop (Some parsedResult) ''foodDetected'') (\<lambda>foodDetected.
                      if foodDetected = Some (JBool False) then Inr parsedResult
                      else if foodDetected = Some (JBool True) then Inr parsedResult
                      else Inr undetermined_result))
           | None \<Rightarrow> Inr no_json_result)
      | _ \<Rightarrow> Inl TypeError)"

text \<open>The \<^verbatim>\<open>try\<close> block with its \<^verbatim>\<open>catch\<close> (lines 392 to 427).\<close>

definition analyzeWithGemini_normalize :: "(string \<Rightarrow> json option) \<Rightarrow> json option \<Rightarrow> json" where
  "analyzeWithGemini_normalize parse analysisText =
     (case analyzeWithGemini_try parse analysisText of
        Inl e \<Rightarrow> parse_error_result
      | Inr r \<Rightarrow> r)"

text \<open>The same two blocks of \<^verbatim>\<open>analyzeWithPerplexity\<close> (lines 533 to 568).\<close>

definition analyzeWithPerplexity_try :: "(string \<Rightarrow> json option) \<Rightarrow> json option \<Rightarrow> exn + json" where
  "analyzeWithPerplexity_try parse analysisText =
     (case analysisText of
        Some (JStr s) \<Rightarrow>
          (case match_braces s of
             Some m \<Rightarrow>
               (case parse m of
                  None \<Rightarrow> Inl SyntaxError
                | Some parsedResult \<Rightarrow>
                    exn_bind (get_prop (Some parsedResult) ''foodDetected'') (\<lambda>foodDetected.
                      if foodDetected = Some (JBool False) then Inr parsedResult
                      else if foodDetected = Some (JBool True) then Inr parsedResult
                      else Inr undetermined_result))
           | None \<Rightarrow> Inr no_json_result)
      | _ \<Rightarrow> Inl TypeError)"

definition analyzeWithPerplexity_normalize :: "(string \<Rightarrow> json option) \<Rightarrow> json option \<Rightarrow> json" where
  "analyzeWithPerplexity_normalize parse analysisText =
     (case analyzeWithPerplexity_try parse analysisText of
        Inl e \<Rightarrow> parse_error_result
      | Inr r \<Rightarrow> r)"

section \<open>The provider call (server.js)\<close>

text \<open>
  What \<^verbatim>\<open>fetch\<close> gives back is the collaborator's: the call is rejected, or it answers
  with a status and a body. \<^verbatim>\<open>response.ok\<close> is a status from 200 to 299; reading the body
  can fail (\<open>None\<close>); \<^verbatim>\<open>response.json()\<close> parses the body as \<^verbatim>\<open>JSON.parse\<close> does.
\<close>

record response =
  status :: nat
  body :: "string option"

datatype fetch_outcome = Rejected | Responded response

definition response_ok :: "response \<Rightarrow> bool" where
  "response_ok r = (200 \<le> status r \<and> status r \<le> 299)"

definition response_text :: "response \<Rightarrow> exn + string" where
  "response_text r = (case body r of None \<Rightarrow> Inl FetchFailed | Some t \<Rightarrow> Inr t)"

definition response_json :: "(string \<Rightarrow> json option) \<Rightarrow> response \<Rightarrow> exn + json" where
  "response_json parse r =
     exn_bind (response_text r) (\<lambda>t. case parse t of None \<Rightarrow> Inl SyntaxError | Some v \<Rightarrow> Inr v)"

text \<open>The decimal digits of a status, as a template literal writes a number.\<close>

fun decimal :: "nat \<Rightarrow> string" where
  "decimal n = (if n < 10 then [char_of (48 + n)] else decimal (n div 10) @ [char_of (48 + n mod 10)])"

text \<open>\<^verbatim>\<open>result.candidates[0].content.parts[0].text\<close>\<close>

definition gemini_text :: "json \<Rightarrow> exn + json option" where
  "gemini_text result =
     exn_bind (get_prop (Some result) ''candidates'') (\<lambda>candidates.
     exn_bind (get_index0 candidates) (\<lambda>candidate.
     exn_bind (get_prop candidate ''content'') (\<lambda>content.
     exn_bind (get_prop content ''parts'') (\<lambda>parts.
     exn_bind (get_index0 parts) (\<lambda>part.
     get_prop part ''text'')))))"

text \<open>\<^verbatim>\<open>result.choices[0].message.content\<close>\<close>

definition perplexity_text :: "json \<Rightarrow> exn + json option" where
  "perplexity_text result =
     exn_bind (get_prop (Some result) ''choices'') (\<lambda>choices.
     exn_bind (get_index0 choices) (\<lambda>choice.
     exn_bind (get_prop choice ''message'') (\<lambda>message.
     get_prop message ''content'')))"

text \<open>
  \<^verbatim>\<open>analyzeWithGemini(imageData, apiKey)\<close>. Building the request calls
  \<^verbatim>\<open>imageData.split(',')\<close>, which exists on strings only; the request itself goes to the
  collaborator, whose answer is \<open>outcome\<close>. The key only goes into the URL.
\<close>

definition analyzeWithGemini ::
  "(string \<Rightarrow> json option) \<Rightarrow> fetch_outcome \<Rightarrow> json option \<Rightarrow> string option \<Rightarrow> exn + json" where
  "analyzeWithGemini parse outcome imageData apiKey =
     (case imageData of
        Some (JStr d) \<Rightarrow>
          (case outcome of
             Rejected \<Rightarrow> Inl FetchFailed
           | Responded response \<Rightarrow>
               if \<not> response_ok response then
                 exn_bind (response_text response) (\<lambda>errorText.
                   Inl (Error (''Gemini API failed: '' @ decimal (status response) @ '' - '' @ errorText)))
               else
                 exn_bind (response_json parse response) (\<lambda>result.
                 exn_bind (gemini_text result) (\<lambda>analysisText.
                   Inr (analyzeWithGemini_normalize parse analysisText))))
      | _ \<Rightarrow> Inl TypeError)"

text \<open>\<^verbatim>\<open>analyzeWithPerplexity(imageData, apiKey)\<close>: the image goes into the request as it is.\<close>

definition analyzeWithPerplexity ::
  "(string \<Rightarrow> json option) \<Rightarrow> fetch_outcome \<Rightarrow> json option \<Rightarrow> string option \<Rightarrow> exn + json" where
  "analyzeWithPerplexity parse outcome imageData apiKey =
     (case outcome of
        Rejected \<Rightarrow> Inl FetchFailed
      | Responded response \<Rightarrow>
          if \<not> response_ok response then
            exn_bind (response_text response) (\<lambda>errorText.
              Inl (Error (''Perplexity API failed: '' @ decimal (status response) @ '' - '' @ errorText)))
          else
            exn_bind (response_json parse response) (\<lambda>result.
            exn_bind (perplexity_text result) (\<lambda>analysisText.
              Inr (analyzeWithPerplexity_normalize parse analysisText))))"

section \<open>The analysis route (server.js)\<close>

text \<open>
  The handler of \<^verbatim>\<open>POST /api/analyze\<close> (lines 132 to 172). Its reply is the status, the
  body, and which analysis function it called. A body is JSON, or, after a \<^verbatim>\<open>catch\<close>, the
  pair of an \<^verbatim>\<open>error\<close> text and the caught error whose \<^verbatim>\<open>message\<close> it carries.
\<close>

datatype provider = Gemini | Perplexity

datatype payload = Json json | Failure string exn

record http_reply =
  code :: nat
  payload :: payload
  invoked :: "provider list"

record environment =
  GEMINI_API_KEY :: "string option"
  PERPLEXITY_API_KEY :: "string option"
  DEFAULT_AI_PROVIDER :: "string option"

definition error_body :: "string \<Rightarrow> string \<Rightarrow> payload" where
  "error_body err msg = Json (JObj [(''error'', JStr err), (''message'', JStr msg)])"

definition gemini_branch ::
  "(string \<Rightarrow> json option) \<Rightarrow> environment \<Rightarrow> fetch_outcome \<Rightarrow> json option \<Rightarrow> http_reply" where
  "gemini_branch parse env outcome imageData =
     (let apiKey = GEMINI_API_KEY env in
      if \<not> truthy (isValidGeminiAPIKey apiKey) then
        \<lparr>code = 400,
         payload = error_body ''Gemini API key not configured''
           ''Please set a valid Gemini API key in environment variables'',
         invoked = []\<rparr>
      else
        (case analyzeWithGemini parse outcome imageData apiKey of
           Inl e \<Rightarrow> \<lparr>code = 500, payload = Failure ''Analysis failed'' e, invoked = [Gemini]\<rparr>
         | Inr analysisResult \<Rightarrow> \<lparr>code = 200, payload = Json analysisResult, invoked = [Gemini]\<rparr>))"

definition perplexity_branch ::
  "(string \<Rightarrow> json option) \<Rightarrow> environment \<Rightarrow> fetch_outcome \<Rightarrow> json option \<Rightarrow> http_reply" where
  "perplexity_branch parse env outcome imageData =
     (let apiKey = PERPLEXITY_API_KEY env in
      if \<not> truthy (isValidAPIKey apiKey) then
        \<lparr>code = 400,
         payload = error_body ''Perplexity API key not configured''
           ''Please set a valid Perplexity API key in environment variables'',
         invoked = []\<rparr>
      else
        (case analyzeWithPerplexity parse outcome imageData apiKey of
           Inl e \<Rightarrow> \<lparr>code = 500, payload = Failure ''Analysis failed'' e, invoked = [Perplexity]\<rparr>
         | Inr analysisResult \<Rightarrow> \<lparr>code = 200, payload = Json analysisResult, invoked = [Perplexity]\<rparr>))"

text \<open>
  \<^verbatim>\<open>const { imageData, provider = 'gemini' } = req.body\<close>: the default stands in for a
  member that is \<^verbatim>\<open>undefined\<close> only.
\<close>

definition analyze_route ::
  "(string \<Rightarrow> json option) \<Rightarrow> environment \<Rightarrow> fetch_outcome \<Rightarrow> json \<Rightarrow> http_reply" where
  "analyze_route parse env outcome req_body =
     (case exn_bind (get_prop (Some req_body) ''imageData'') (\<lambda>imageData.
           exn_bind (get_prop (Some req_body) ''provider'') (\<lambda>p.
             Inr (imageData, case p of None \<Rightarrow> JStr ''gemini'' | Some v \<Rightarrow> v))) of
        Inl e \<Rightarrow> \<lparr>code = 500, payload = Failure ''Analysis failed'' e, invoked = []\<rparr>
      | Inr (imageData, provider) \<Rightarrow>
          if \<not> truthy imageData then
            \<lparr>code = 400,
             payload = error_body ''Missing image data'' ''Image data is required for analysis'',
             invoked = []\<rparr>
          else if provider = JStr ''gemini'' then gemini_branch parse env outcome imageData
          else perplexity_branch parse env outcome imageData)"

text \<open>
  The handler of \<^verbatim>\<open>GET /api/config\<close> (lines 65 to 83): the JSON it sends.
  \<^verbatim>\<open>res.json\<close> leaves out a member whose value is \<^verbatim>\<open>undefined\<close>.
\<close>

definition json_member :: "string \<Rightarrow> string option \<Rightarrow> (string \<times> json) list" where
  "json_member k v = (case v of None \<Rightarrow> [] | Some s \<Rightarrow> [(k, JStr s)])"

definition config_route :: "environment \<Rightarrow> json" where
  "config_route env =
     (let perplexityApiKey = PERPLEXITY_API_KEY env;
          geminiApiKey = GEMINI_API_KEY env;
          defaultProvider = (case DEFAULT_AI_PROVIDER env of
                               None \<Rightarrow> ''gemini''
                             | Some p \<Rightarrow> if p = [] then ''gemini'' else p)
      in JObj (json_member ''perplexityApiKey'' perplexityApiKey
             @ json_member ''geminiApiKey'' geminiApiKey
             @ [(''defaultProvider'', JStr defaultProvider)]))"

section \<open>The mock generator (app.js)\<close>

text \<open>
  \<^verbatim>\<open>getMockAnalysisResult\<close> (lines 499 to 571) draws from \<^verbatim>\<open>Math.random()\<close>, a number in
  \<open>[0, 1)\<close>, once to decide whether food is detected and once more to pick a dish. The
  two draws are the parameters \<open>r1\<close> and \<open>r2\<close>; a draw is a double, so it is at most
  \<open>1 - 2\<^sup>-\<^sup>5\<^sup>3\<close>. No double lies between the double that the literal \<^verbatim>\<open>0.7\<close> denotes
  and \<open>7/10\<close>, so on draws the comparison with the literal is the comparison with
  \<open>7/10\<close>.
\<close>

definition no_food_result :: json where
  "no_food_result = JObj
     [(''foodDetected'', JBool False),
      (''message'', JStr ''No food detected in this image. Please take a photo showing actual food items like prepared dishes, meals, or food ready to eat.'')]"

definition mockData :: "json list" where
  "mockData =
     [JObj
        [(''foodDetected'', JBool True),
         (''rating'', JNum 1),
         (''ratingName'', JStr ''Premium''),
         (''foodName'', JStr ''Grilled Salmon with Quinoa''),
         (''productDetails'', JObj
            [(''category'', JStr ''Healthy Seafood''),
             (''estimatedCalories'', JStr ''420 kcal''),
             (''protein'', JStr ''28g''),
             (''carbs'', JStr ''35g''),
             (''fat'', JStr ''18g''),
             (''fiber'', JStr ''8g''),
             (''sodium'', JStr ''580mg'')]),
         (''healthScore'', JNum 92),
         (''pros'', JArr [JStr ''Perfectly grilled salmon'', JStr ''Nutrient-rich quinoa'',
            JStr ''Beautiful presentation'', JStr ''Balanced macronutrients'', JStr ''Fresh vegetables'']),
         (''cons'', JArr [JStr ''Could use more seasoning'', JStr ''Portion slightly small'']),
         (''recommendations'', JArr [JStr ''Add lemon for extra flavor'',
            JStr ''Consider larger portion for active individuals''])],
      JObj
        [(''foodDetected'', JBool True),
         (''rating'', JNum 2),
         (''ratingName'', JStr ''High Standard''),
         (''foodName'', JStr ''Mediterranean Chicken Bowl''),
         (''productDetails'', JObj
            [(''category'', JStr ''Mediterranean''),
             (''estimatedCalories'', JStr ''380 kcal''),
             (''protein'', JStr ''32g''),
             (''carbs'', JStr ''28g''),
             (''fat'', JStr ''14g''),
             (''fiber'', JStr ''12g''),
             (''sodium'', JStr ''620mg'')]),
         (''healthScore'', JNum 88),
         (''pros'', JArr [JStr ''Fresh ingredients'', JStr ''Good protein content'',
            JStr ''Healthy vegetables'', JStr ''Nice seasoning'', JStr ''Balanced nutrition'']),
         (''cons'', JArr [JStr ''Could use more sauce'', JStr ''Portion slightly small'']),
         (''recommendations'', JArr [JStr ''Add tahini sauce'',
            JStr ''Include more vegetables for fiber''])],
      JObj
        [(''foodDetected'', JBool True),
         (''rating'', JNum 3),
         (''ratingName'', JStr ''Standard''),
         (''foodName'', JStr ''Homemade Pasta with Vegetables''),
         (''productDetails'', JObj
            [(''category'', JStr ''Italian Home Cooking''),
             (''estimatedCalories'', JStr ''450 kcal''),
             (''protein'', JStr ''18g''),
             (''carbs'', JStr ''65g''),
             (''fat'', JStr ''12g''),
             (''fiber'', JStr ''8g''),
             (''sodium'', JStr ''580mg'')]),
         (''healthScore'', JNum 75),
         (''pros'', JArr [JStr ''Fresh pasta'', JStr ''Good portion size'',
            JStr ''Contains vegetables'', JStr ''Homemade taste'']),
         (''cons'', JArr [JStr ''Could use more protein'', JStr ''Sauce needs improvement'',
            JStr ''Slightly overcooked'']),
         (''recommendations'', JArr [JStr ''Add lean meat or cheese'',
            JStr ''Improve sauce consistency'', JStr ''Cook pasta al dente''])]]"

text \<open>The element read \<^verbatim>\<open>xs[i]\<close> of an array at a whole number: \<^verbatim>\<open>undefined\<close> out of range.\<close>

definition element_at :: "'a list \<Rightarrow> int \<Rightarrow> 'a option" where
  "element_at xs i = (if 0 \<le> i \<and> i < int (length xs) then Some (xs ! nat i) else None)"

text \<open>
  The product \<^verbatim>\<open>Math.random() * mockData.length\<close> is a product of doubles: the exact
  product rounded to the nearest double, a tie going to the double whose last bit is
  even. \<open>binade\<close> finds the power of two at or below a positive number, with fuel beyond
  the exponents doubles have; \<open>ulp\<close> is the distance between neighbouring doubles there,
  \<open>2\<^sup>-\<^sup>5\<^sup>2\<close> times that power, the exponent not going below \<open>-1022\<close>;
  \<open>double_round\<close> is the rounding, for numbers below \<open>2\<^sup>1\<^sup>0\<^sup>2\<^sup>4\<close> in size.
\<close>

definition round_half_even :: "real \<Rightarrow> int" where
  "round_half_even q =
     (let n = \<lfloor>q\<rfloor>; f = q - of_int n in
      if f < 1 / 2 then n
      else if 1 / 2 < f then n + 1
      else if even n then n else n + 1)"

fun binade :: "nat \<Rightarrow> real \<Rightarrow> int" where
  "binade 0 x = 0"
| "binade (Suc n) x =
     (if 2 \<le> x then binade n (x / 2) + 1
      else if x < 1 then binade n (x * 2) - 1
      else 0)"

definition ulp :: "real \<Rightarrow> real" where
  "ulp x =
     (let e = max (binade 1100 \<bar>x\<bar>) (- 1022) - 52 in
      if 0 \<le> e then 2 ^ nat e else 1 / 2 ^ nat (- e))"

definition double_round :: "real \<Rightarrow> real" where
  "double_round x = of_int (round_half_even (x / ulp x)) * ulp x"

definition getMockAnalysisResult :: "real \<Rightarrow> real \<Rightarrow> json option" where
  "getMockAnalysisResult r1 r2 =
     (let shouldDetectFood = (r1 > 7 / 10) in
      if \<not> shouldDetectFood then Some no_food_result
      else element_at mockData \<lfloor>double_round (r2 * real (length mockData))\<rfloor>)"

section \<open>The client's orchestration (app.js)\<close>

text \<open>
  \<^verbatim>\<open>isValidAPIKey(apiKey, provider = 'gemini')\<close> of \<^verbatim>\<open>FoodVisionApp\<close> (lines 389 to
  401); the default stands in for a provider that is \<^verbatim>\<open>undefined\<close>. \<^verbatim>\<open>startsWith\<close> exists
  on strings only.
\<close>

definition FoodVisionApp_isValidAPIKey :: "json option \<Rightarrow> json option \<Rightarrow> exn + bool" where
  "FoodVisionApp_isValidAPIKey apiKey provider =
     (if \<not> truthy apiKey then Inr False
      else
        (case apiKey of
           Some (JStr k) \<Rightarrow>
             if provider = None \<or> provider = Some (JStr ''gemini'')
             then Inr (prefix ''AIza'' k \<and> length k > 20)
             else Inr (k \<noteq> placeholder_key \<and> prefix ''pplx-'' k \<and> length k > 20)
         | _ \<Rightarrow> Inl TypeError))"

text \<open>
  \<^verbatim>\<open>getAPIConfigFromServer\<close> (lines 372 to 381): the parsed body of \<^verbatim>\<open>/api/config\<close>, or
  \<^verbatim>\<open>null\<close> when the call or the parse fails.
\<close>

definition getAPIConfigFromServer :: "(string \<Rightarrow> json option) \<Rightarrow> fetch_outcome \<Rightarrow> json" where
  "getAPIConfigFromServer parse outcome =
     (case outcome of
        Rejected \<Rightarrow> JNull
      | Responded response \<Rightarrow>
          (case response_json parse response of Inl e \<Rightarrow> JNull | Inr config \<Rightarrow> config))"

text \<open>The \<^verbatim>\<open>try\<close> block of \<^verbatim>\<open>analyzeImageWithAI\<close> (lines 333 to 352).\<close>

definition analyze_request :: "(string \<Rightarrow> json option) \<Rightarrow> fetch_outcome \<Rightarrow> exn + json" where
  "analyze_request parse outcome =
     (case outcome of
        Rejected \<Rightarrow> Inl FetchFailed
      | Responded response \<Rightarrow>
          if \<not> response_ok response then
            exn_bind (response_text response) (\<lambda>errorText.
              Inl (Error (''Analysis failed: '' @ decimal (status response) @ '' - '' @ errorText)))
          else response_json parse response)"

text \<open>
  \<^verbatim>\<open>analyzeImageWithAI(imageData)\<close> (lines 296 to 366), from the collaborator's answers
  to the call of \<^verbatim>\<open>/api/config\<close> and to the call of \<^verbatim>\<open>/api/analyze\<close>, and the draws of
  the mock generator. A result that resolves is \<open>Inr\<close>, with the reason of the fallback
  (what the notification says) beside the value; a rejection is \<open>Inl\<close>.
\<close>

datatype fallback = Config_Unavailable | Key_Not_Configured | Provider_Failed exn

text \<open>\<^verbatim>\<open>config.defaultProvider || 'gemini'\<close>\<close>

definition config_provider :: "json \<Rightarrow> exn + json option" where
  "config_provider config =
     exn_bind (get_prop (Some config) ''defaultProvider'') (\<lambda>defaultProvider.
       Inr (if truthy defaultProvider then defaultProvider else Some (JStr ''gemini'')))"

text \<open>\<^verbatim>\<open>provider === 'gemini' ? config.geminiApiKey : config.perplexityApiKey\<close>\<close>

definition config_apiKey :: "json \<Rightarrow> json option \<Rightarrow> exn + json option" where
  "config_apiKey config provider =
     (if provider = Some (JStr ''gemini'') then get_prop (Some config) ''geminiApiKey''
      else get_prop (Some config) ''perplexityApiKey'')"

text \<open>
  A template literal converts the provider to a string (lines 318, 331, 354 and 359). The
  conversion throws a \<^verbatim>\<open>TypeError\<close> on an object that has a member \<^verbatim>\<open>toString\<close> of its own,
  which hides the inherited function and is not one itself, and on an array that holds
  such an object; every other value converts. The text goes to the console and the
  notification only, so what the conversion returns here is whether it throws.
\<close>

fun converts_to_string :: "json \<Rightarrow> bool" where
  "converts_to_string (JObj kv) = (map_of kv ''toString'' = None)"
| "converts_to_string (JArr xs) = list_all converts_to_string xs"
| "converts_to_string JNull = True"
| "converts_to_string (JBool b) = True"
| "converts_to_string (JNum q) = True"
| "converts_to_string (JStr s) = True"

definition template_literal :: "json option \<Rightarrow> exn + unit" where
  "template_literal v =
     (case v of
        None \<Rightarrow> Inr ()
      | Some j \<Rightarrow> if converts_to_string j then Inr () else Inl TypeError)"

definition analyzeImageWithAI ::
  "(string \<Rightarrow> json option) \<Rightarrow> fetch_outcome \<Rightarrow> fetch_outcome \<Rightarrow> real \<Rightarrow> real \<Rightarrow> string
     \<Rightarrow> exn + (fallback option \<times> json option)" where
  "analyzeImageWithAI parse config_outcome outcome r1 r2 imageData =
     (let config = getAPIConfigFromServer parse config_outcome in
      if \<not> truthy (Some config) then Inr (Some Config_Unavailable, getMockAnalysisResult r1 r2)
      else
        exn_bind (config_provider config) (\<lambda>provider.
        exn_bind (config_apiKey config provider) (\<lambda>apiKey.
        exn_bind (FoodVisionApp_isValidAPIKey apiKey provider) (\<lambda>valid.
          if \<not> valid then
            exn_bind (template_literal provider) (\<lambda>logged.
              Inr (Some Key_Not_Configured, getMockAnalysisResult r1 r2))
          else
            exn_bind (template_literal provider) (\<lambda>logged.
              case analyze_request parse outcome of
                Inr analysisData \<Rightarrow> Inr (None, Some analysisData)
              | Inl error \<Rightarrow>
                  exn_bind (template_literal provider) (\<lambda>logged.
                  exn_bind (template_literal provider) (\<lambda>notified.
                    Inr (Some (Provider_Failed error), getMockAnalysisResult r1 r2))))))))"

section \<open>A reader for JSON text\<close>

text \<open>
  The functions above take \<^verbatim>\<open>JSON.parse\<close> as the parameter \<open>parse\<close>. The reader below
  instantiates it in closed instances. It follows the JSON grammar on ASCII text: white
  space, the three literals, numbers, strings with the two-character escapes, arrays and
  objects; a repeated member name keeps its first place and its last value. It has no
  \<^verbatim>\<open>\u\<close> escapes. The recursion runs on fuel, one unit per nesting step or element, and
  \<open>json_parse\<close> gives it more than the text is long.
\<close>

definition is_ws :: "char \<Rightarrow> bool" where
  "is_ws c = (c = CHR '' '' \<or> c = CHR 0x09 \<or> c = CHR 0x0A \<or> c = CHR 0x0D)"

definition skip_ws :: "string \<Rightarrow> string" where
  "skip_ws s = dropWhile is_ws s"

definition expect :: "char \<Rightarrow> string \<Rightarrow> string option" where
  "expect c s = (case skip_ws s of [] \<Rightarrow> None | d # r \<Rightarrow> if d = c then Some r else None)"

definition strip_prefix :: "string \<Rightarrow> string \<Rightarrow> string option" where
  "strip_prefix p s = (if prefix p s then Some (drop (length p) s) else None)"

definition is_digit :: "char \<Rightarrow> bool" where
  "is_digit c = ((48::nat) \<le> of_char c \<and> (of_char c :: nat) \<le> 57)"

definition digits_value :: "string \<Rightarrow> nat" where
  "digits_value ds = foldl (\<lambda>n c. 10 * n + (of_char c - 48)) 0 ds"

fun parse_string_chars :: "string \<Rightarrow> string \<Rightarrow> (string \<times> string) option" where
  "parse_string_chars acc [] = None"
| "parse_string_chars acc (c # cs) =
     (if c = CHR 0x22 then Some (rev acc, cs)
      else if c = CHR 0x5C then
        (case cs of
           [] \<Rightarrow> None
         | e # cs' \<Rightarrow>
             if e = CHR 0x22 \<or> e = CHR 0x5C \<or> e = CHR ''/'' then parse_string_chars (e # acc) cs'
             else if e = CHR ''b'' then parse_string_chars (CHR 0x08 # acc) cs'
             else if e = CHR ''f'' then parse_string_chars (CHR 0x0C # acc) cs'
             else if e = CHR ''n'' then parse_string_chars (CHR 0x0A # acc) cs'
             else if e = CHR ''r'' then parse_string_chars (CHR 0x0D # acc) cs'
             else if e = CHR ''t'' then parse_string_chars (CHR 0x09 # acc) cs'
             else None)
      else if (of_char c :: nat) < 32 then None
      else parse_string_chars (c # acc) cs)"

definition parse_number :: "string \<Rightarrow> (json \<times> string) option" where
  "parse_number s =
     (let (neg, s1) = (case s of [] \<Rightarrow> (False, s) | c # r \<Rightarrow> if c = CHR ''-'' then (True, r) else (False, s));
          ds = takeWhile is_digit s1; s2 = dropWhile is_digit s1
      in if ds = [] \<or> (length ds > 1 \<and> hd ds = CHR ''0'') then None
         else
           (let (fs, s3) = (case s2 of [] \<Rightarrow> (Some [], s2)
                   | c # r \<Rightarrow> if c = CHR ''.''
                       then (if takeWhile is_digit r = [] then None else Some (takeWhile is_digit r), dropWhile is_digit r)
                       else (Some [], s2))
            in case fs of None \<Rightarrow> None | Some fs \<Rightarrow>
              (let (ex, s4) = (case s3 of [] \<Rightarrow> (Some (0::int), s3)
                     | c # r \<Rightarrow> if c = CHR ''e'' \<or> c = CHR ''E''
                         then (let (eneg, r1) = (case r of [] \<Rightarrow> (False, r)
                                      | d # r' \<Rightarrow> if d = CHR ''-'' then (True, r') else if d = CHR ''+'' then (False, r') else (False, r))
                               in (if takeWhile is_digit r1 = [] then None
                                   else Some ((if eneg then -1 else 1) * int (digits_value (takeWhile is_digit r1))),
                                   dropWhile is_digit r1))
                         else (Some 0, s3))
               in case ex of None \<Rightarrow> None | Some ex \<Rightarrow>
                 Some (JNum ((if neg then -1 else 1)
                         * (of_nat (digits_value ds) + of_nat (digits_value fs) / 10 ^ length fs)
                         * (if ex < 0 then 1 / 10 ^ nat (- ex) else 10 ^ nat ex)), s4))))"

fun update_member :: "string \<Rightarrow> json \<Rightarrow> (string \<times> json) list \<Rightarrow> (string \<times> json) list" where
  "update_member k v [] = [(k, v)]"
| "update_member k v (p # ps) = (if fst p = k then (k, v) # ps else p # update_member k v ps)"

fun parse_value :: "nat \<Rightarrow> string \<Rightarrow> (json \<times> string) option"
and parse_elements :: "nat \<Rightarrow> json list \<Rightarrow> string \<Rightarrow> (json \<times> string) option"
and parse_members :: "nat \<Rightarrow> (string \<times> json) list \<Rightarrow> string \<Rightarrow> (json \<times> string) option" where
  "parse_value 0 s = None"
| "parse_value (Suc n) s =
     (case skip_ws s of
        [] \<Rightarrow> None
      | c # cs \<Rightarrow>
          if c = CHR ''{'' then
            (case expect CHR ''}'' cs of Some r \<Rightarrow> Some (JObj [], r) | None \<Rightarrow> parse_members n [] cs)
          else if c = CHR ''['' then
            (case expect CHR '']'' cs of Some r \<Rightarrow> Some (JArr [], r) | None \<Rightarrow> parse_elements n [] cs)
          else if c = CHR 0x22 then
            (case parse_string_chars [] cs of None \<Rightarrow> None | Some (str, r) \<Rightarrow> Some (JStr str, r))
          else if c = CHR ''t'' then map_option (Pair (JBool True)) (strip_prefix ''rue'' cs)
          else if c = CHR ''f'' then map_option (Pair (JBool False)) (strip_prefix ''alse'' cs)
          else if c = CHR ''n'' then map_option (Pair JNull) (strip_prefix ''ull'' cs)
          else parse_number (c # cs))"
| "parse_elements 0 acc s = None"
| "parse_elements (Suc n) acc s =
     (case parse_value n s of
        None \<Rightarrow> None
      | Some (v, r) \<Rightarrow>
          (case expect CHR '','' r of
             Some r' \<Rightarrow> parse_elements n (v # acc) r'
           | None \<Rightarrow>
               (case expect CHR '']'' r of
                  Some r' \<Rightarrow> Some (JArr (rev (v # acc)), r')
                | None \<Rightarrow> None)))"
| "parse_members 0 acc s = None"
| "parse_members (Suc n) acc s =
     (case expect CHR 0x22 s of
        None \<Rightarrow> None
      | Some r \<Rightarrow>
          (case parse_string_chars [] r of
             None \<Rightarrow> None
           | Some (k, r1) \<Rightarrow>
               (case expect CHR '':'' r1 of
                  None \<Rightarrow> None
                | Some r2 \<Rightarrow>
                    (case parse_value n r2 of
                       None \<Rightarrow> None
                     | Some (v, r3) \<Rightarrow>
                         (case expect CHR '','' r3 of
                            Some r4 \<Rightarrow> parse_members n (update_member k v acc) r4
                          | None \<Rightarrow>
                              (case expect CHR ''}'' r3 of
                                 Some r4 \<Rightarrow> Some (JObj (update_member k v acc), r4)
                               | None \<Rightarrow> None))))))"

definition json_parse :: "string \<Rightarrow> json option" where
  "json_parse s =
     (case parse_value (Suc (length s)) s of
        None \<Rightarrow> None
      | Some (v, r) \<Rightarrow> if skip_ws r = [] then Some v else None)"

section \<open>Vocabulary of the statements\<close>

text \<open>
  A member of a result, and the range condition of the result type: the member is absent,
  or it is a whole number between the two bounds.
\<close>

definition result_field :: "json \<Rightarrow> string \<Rightarrow> json option" where
  "result_field r k = (case r of JObj kv \<Rightarrow> map_of kv k | _ \<Rightarrow> None)"

definition absent_or_whole_in :: "int \<Rightarrow> int \<Rightarrow> json option \<Rightarrow> bool" where
  "absent_or_whole_in lo hi v =
     (case v of
        None \<Rightarrow> True
      | Some (JNum q) \<Rightarrow> q = of_int \<lfloor>q\<rfloor> \<and> lo \<le> \<lfloor>q\<rfloor> \<and> \<lfloor>q\<rfloor> \<le> hi
      | Some _ \<Rightarrow> False)"



text \<open>
  What \<^verbatim>\<open>isValidAPIKey\<close> of \<^verbatim>\<open>FoodVisionApp\<close> can take without a \<^verbatim>\<open>TypeError\<close>: a key
  that is a string, or a value that is not truthy.
\<close>

fun text_or_falsy :: "json option \<Rightarrow> bool" where
  "text_or_falsy (Some (JStr k)) = True"
| "text_or_falsy v = (\<not> truthy v)"

section \<open>The match of the regular expression\<close>

lemma dropWhile_brace_hd:
  assumes "dropWhile (\<lambda>c. c \<noteq> a) s = c # rest"
  shows "c = a \<and> s = takeWhile (\<lambda>c. c \<noteq> a) s @ a # rest"
proof -
  have "dropWhile (\<lambda>c. c \<noteq> a) s \<noteq> []" using assms by simp
  then have "\<not> (hd (dropWhile (\<lambda>c. c \<noteq> a) s) \<noteq> a)" by (rule hd_dropWhile)
  with assms have c: "c = a" by simp
  have "takeWhile (\<lambda>c. c \<noteq> a) s @ dropWhile (\<lambda>c. c \<noteq> a) s = s" by simp
  with assms c show ?thesis by simp
qed

lemma rev_dropWhile_Nil_iff:
  "rev (dropWhile (\<lambda>c. c \<noteq> a) (rev xs)) = [] \<longleftrightarrow> a \<notin> set xs"
  by (auto simp: dropWhile_eq_Nil_conv)

lemma match_braces_None_iff:
  "match_braces s = None \<longleftrightarrow> \<not> (\<exists>pre mid post. s = pre @ CHR ''{'' # mid @ CHR ''}'' # post)"
proof (cases "dropWhile (\<lambda>c. c \<noteq> CHR ''{'') s")
  case Nil
  then have "CHR ''{'' \<notin> set s" by (auto simp: dropWhile_eq_Nil_conv)
  then have "\<not> (\<exists>pre mid post. s = pre @ CHR ''{'' # mid @ CHR ''}'' # post)" by auto
  moreover have "match_braces s = None" unfolding match_braces_def Nil by simp
  ultimately show ?thesis by simp
next
  case (Cons c rest)
  note first = Cons
  define t where "t = takeWhile (\<lambda>c. c \<noteq> CHR ''{'') s"
  from dropWhile_brace_hd [OF Cons]
  have c: "c = CHR ''{''" and s: "t @ CHR ''{'' # rest = s" by (simp_all add: t_def)
  have t: "CHR ''{'' \<notin> set t" unfolding t_def by (auto dest: set_takeWhileD)
  have m: "match_braces s = None \<longleftrightarrow> CHR ''}'' \<notin> set rest"
  proof (cases "rev (dropWhile (\<lambda>c. c \<noteq> CHR ''}'') (rev rest))")
    case Nil
    with rev_dropWhile_Nil_iff [of "CHR ''}''" rest] have "CHR ''}'' \<notin> set rest" by blast
    moreover have "match_braces s = None" by (simp add: match_braces_def first Nil)
    ultimately show ?thesis by simp
  next
    case (Cons d ds)
    with rev_dropWhile_Nil_iff [of "CHR ''}''" rest] have "CHR ''}'' \<in> set rest" by auto
    moreover have "match_braces s \<noteq> None" by (simp add: match_braces_def first Cons)
    ultimately show ?thesis by simp
  qed
  have "(\<exists>pre mid post. s = pre @ CHR ''{'' # mid @ CHR ''}'' # post) \<longleftrightarrow> CHR ''}'' \<in> set rest"
  proof
    assume "\<exists>pre mid post. s = pre @ CHR ''{'' # mid @ CHR ''}'' # post"
    then obtain pre mid post where e: "s = pre @ CHR ''{'' # mid @ CHR ''}'' # post" by blast
    from s e have "t @ CHR ''{'' # rest = pre @ CHR ''{'' # mid @ CHR ''}'' # post" by (rule trans)
    then consider us where "t = pre @ us" "us @ CHR ''{'' # rest = CHR ''{'' # mid @ CHR ''}'' # post"
      | us where "t @ us = pre" "CHR ''{'' # rest = us @ CHR ''{'' # mid @ CHR ''}'' # post"
      unfolding append_eq_append_conv2 by blast
    then show "CHR ''}'' \<in> set rest"
    proof cases
      case 1
      with t have "us = []" by (cases us) auto
      with 1 show ?thesis by auto
    next
      case 2
      then show ?thesis by (cases us) auto
    qed
  next
    assume "CHR ''}'' \<in> set rest"
    then obtain mid post where "rest = mid @ CHR ''}'' # post" by (auto dest: split_list)
    with s have "s = t @ CHR ''{'' # mid @ CHR ''}'' # post" by simp
    then show "\<exists>pre mid post. s = pre @ CHR ''{'' # mid @ CHR ''}'' # post" by blast
  qed
  with m show ?thesis by simp
qed

lemma normalize_no_match:
  "match_braces s = None \<Longrightarrow>
     analyzeWithGemini_normalize parse (Some (JStr s)) = no_json_result
     \<and> analyzeWithPerplexity_normalize parse (Some (JStr s)) = no_json_result"
  by (simp add: analyzeWithGemini_normalize_def analyzeWithGemini_try_def
      analyzeWithPerplexity_normalize_def analyzeWithPerplexity_try_def)

lemma normalize_parse_failure:
  "match_braces s = Some m \<Longrightarrow> parse m = None \<Longrightarrow>
     analyzeWithGemini_normalize parse (Some (JStr s)) = parse_error_result
     \<and> analyzeWithPerplexity_normalize parse (Some (JStr s)) = parse_error_result"
  by (simp add: analyzeWithGemini_normalize_def analyzeWithGemini_try_def
      analyzeWithPerplexity_normalize_def analyzeWithPerplexity_try_def)

lemma normalize_parsed_object:
  "match_braces s = Some m \<Longrightarrow> parse m = Some (JObj kv) \<Longrightarrow>
     analyzeWithGemini_normalize parse (Some (JStr s)) =
       (if map_of kv ''foodDetected'' = Some (JBool False) \<or> map_of kv ''foodDetected'' = Some (JBool True)
        then JObj kv else undetermined_result)
     \<and> analyzeWithPerplexity_normalize parse (Some (JStr s)) =
       (if map_of kv ''foodDetected'' = Some (JBool False) \<or> map_of kv ''foodDetected'' = Some (JBool True)
        then JObj kv else undetermined_result)"
  by (simp add: analyzeWithGemini_normalize_def analyzeWithGemini_try_def
      analyzeWithPerplexity_normalize_def analyzeWithPerplexity_try_def exn_bind_def)

section \<open>The reply of the provider\<close>

text \<open>
  With an answer whose status is from 200 to 299 and whose body parses, and a text at the
  reply's place, each analysis function returns what its \<^verbatim>\<open>try\<close> and \<^verbatim>\<open>catch\<close> blocks
  make of that text.
\<close>

lemma analyzeWithGemini_reply:
  assumes "response_ok r" and "response_json parse r = Inr result"
    and "gemini_text result = Inr analysisText"
  shows "analyzeWithGemini parse (Responded r) (Some (JStr d)) apiKey =
           Inr (analyzeWithGemini_normalize parse analysisText)"
  using assms by (simp add: analyzeWithGemini_def exn_bind_def)

lemma analyzeWithPerplexity_reply:
  assumes "response_ok r" and "response_json parse r = Inr result"
    and "perplexity_text result = Inr analysisText"
  shows "analyzeWithPerplexity parse (Responded r) imageData apiKey =
           Inr (analyzeWithPerplexity_normalize parse analysisText)"
  using assms by (simp add: analyzeWithPerplexity_def exn_bind_def)

lemma gemini_text_reply:
  "gemini_text (JObj [(''candidates'', JArr [JObj [(''content'',
      JObj [(''parts'', JArr [JObj [(''text'', JStr s)]])])]])]) = Inr (Some (JStr s))"
  by (simp add: gemini_text_def exn_bind_def)

lemma perplexity_text_reply:
  "perplexity_text (JObj [(''choices'', JArr [JObj [(''message'',
      JObj [(''content'', JStr s)])]])]) = Inr (Some (JStr s))"
  by (simp add: perplexity_text_def exn_bind_def)

text \<open>
  Claim C1, as the code has it. When the matched text parses to an object whose
  \<^verbatim>\<open>foodDetected\<close> is \<^verbatim>\<open>true\<close>, both analysis functions return the parsed object as it
  is: \<^verbatim>\<open>rating\<close>, \<^verbatim>\<open>healthScore\<close> and every other member are what the provider sent,
  with no check of range or type.
\<close>

theorem food_detected_reply_passes_through:
  assumes "match_braces s = Some m" and "parse m = Some (JObj kv)"
    and "map_of kv ''foodDetected'' = Some (JBool True)"
  shows "analyzeWithGemini_normalize parse (Some (JStr s)) = JObj kv
      \<and> analyzeWithPerplexity_normalize parse (Some (JStr s)) = JObj kv"
  using normalize_parsed_object [of s m parse kv] assms by simp

theorem food_detected_reply_passes_through_witness:
  \<open>match_braces ''Sure! {"foodDetected": true, "foodName": "Pad Thai", "rating": 2, "score": 81} Enjoy.''
      = Some ''{"foodDetected": true, "foodName": "Pad Thai", "rating": 2, "score": 81}''
   \<and> analyzeWithGemini_normalize json_parse
        (Some (JStr ''Sure! {"foodDetected": true, "foodName": "Pad Thai", "rating": 2, "score": 81} Enjoy.''))
      = JObj [(''foodDetected'', JBool True), (''foodName'', JStr ''Pad Thai''),
              (''rating'', JNum 2), (''score'', JNum 81)]\<close>
proof -
  have a: \<open>match_braces ''Sure! {"foodDetected": true, "foodName": "Pad Thai", "rating": 2, "score": 81} Enjoy.''
      = Some ''{"foodDetected": true, "foodName": "Pad Thai", "rating": 2, "score": 81}''\<close>
    by code_simp
  have b: \<open>json_parse ''{"foodDetected": true, "foodName": "Pad Thai", "rating": 2, "score": 81}''
      = Some (JObj [(''foodDetected'', JBool True), (''foodName'', JStr ''Pad Thai''),
              (''rating'', JNum 2), (''score'', JNum 81)])\<close>
    by code_simp
  from food_detected_reply_passes_through [where parse = json_parse, OF a b] a show ?thesis by simp
qed

text \<open>
  Claim C1 as the specification states it fails: a reply with rating 7 and health score
  250 parses, has \<^verbatim>\<open>foodDetected\<close> \<^verbatim>\<open>true\<close>, and comes back with both numbers unchanged;
  a rating that is a string comes back as that string.
\<close>

theorem rating_not_coerced_counterexample:
  \<open>json_parse ''{"foodDetected":true,"rating":7,"healthScore":250}''
      = Some (JObj [(''foodDetected'', JBool True), (''rating'', JNum 7), (''healthScore'', JNum 250)])
   \<and> analyzeWithGemini_normalize json_parse (Some (JStr ''{"foodDetected":true,"rating":7,"healthScore":250}''))
      = JObj [(''foodDetected'', JBool True), (''rating'', JNum 7), (''healthScore'', JNum 250)]
   \<and> analyzeWithPerplexity_normalize json_parse (Some (JStr ''{"foodDetected":true,"rating":7,"healthScore":250}''))
      = JObj [(''foodDetected'', JBool True), (''rating'', JNum 7), (''healthScore'', JNum 250)]
   \<and> \<not> absent_or_whole_in 1 5 (result_field
         (analyzeWithGemini_normalize json_parse (Some (JStr ''{"foodDetected":true,"rating":7,"healthScore":250}'')))
         ''rating'')
   \<and> \<not> absent_or_whole_in 0 100 (result_field
         (analyzeWithGemini_normalize json_parse (Some (JStr ''{"foodDetected":true,"rating":7,"healthScore":250}'')))
         ''healthScore'')
   \<and> \<not> absent_or_whole_in 1 5 (result_field
         (analyzeWithGemini_normalize json_parse (Some (JStr ''{"foodDetected":true,"rating":"great"}'')))
         ''rating'')\<close>
proof -
  have a: \<open>match_braces ''{"foodDetected":true,"rating":7,"healthScore":250}''
      = Some ''{"foodDetected":true,"rating":7,"healthScore":250}''\<close> by code_simp
  have b: \<open>json_parse ''{"foodDetected":true,"rating":7,"healthScore":250}''
      = Some (JObj [(''foodDetected'', JBool True), (''rating'', JNum 7), (''healthScore'', JNum 250)])\<close>
    by code_simp
  have c: \<open>match_braces ''{"foodDetected":true,"rating":"great"}''
      = Some ''{"foodDetected":true,"rating":"great"}''\<close> by code_simp
  have d: \<open>json_parse ''{"foodDetected":true,"rating":"great"}''
      = Some (JObj [(''foodDetected'', JBool True), (''rating'', JStr ''great'')])\<close>
    by code_simp
  from normalize_parsed_object [where parse = json_parse, OF a b] normalize_parsed_object [where parse = json_parse, OF c d] b
  show ?thesis by (simp add: result_field_def absent_or_whole_in_def)
qed

text \<open>
  Claim C5. A reply with no opening brace followed later by a closing brace gives the
  result with \<^verbatim>\<open>foodDetected\<close> \<^verbatim>\<open>false\<close> and the message that the image could not be
  analysed; a reply whose matched text \<^verbatim>\<open>JSON.parse\<close> rejects gives the result with
  \<^verbatim>\<open>foodDetected\<close> \<^verbatim>\<open>false\<close> and the message of the \<^verbatim>\<open>catch\<close> block. In both cases the
  function returns a value: the \<^verbatim>\<open>SyntaxError\<close> is caught.
\<close>

theorem malformed_reply_gives_default:
  "((\<nexists>pre mid post. s = pre @ CHR ''{'' # mid @ CHR ''}'' # post) \<longrightarrow>
      analyzeWithGemini_normalize parse (Some (JStr s)) = JObj
        [(''foodDetected'', JBool False),
         (''message'', JStr ''Unable to analyze image. Please take a clear photo of food items.'')]
      \<and> analyzeWithPerplexity_normalize parse (Some (JStr s)) = JObj
        [(''foodDetected'', JBool False),
         (''message'', JStr ''Unable to analyze image. Please take a clear photo of food items.'')])
   \<and> (match_braces s = Some m \<and> parse m = None \<longrightarrow>
      analyzeWithGemini_normalize parse (Some (JStr s)) = JObj
        [(''foodDetected'', JBool False),
         (''message'', JStr ''Error analyzing image. Please try again with a clear photo of food items.'')]
      \<and> analyzeWithPerplexity_normalize parse (Some (JStr s)) = JObj
        [(''foodDetected'', JBool False),
         (''message'', JStr ''Error analyzing image. Please try again with a clear photo of food items.'')])"
  using normalize_no_match [of s parse] normalize_parse_failure [of s m parse]
    match_braces_None_iff [of s]
  by (simp add: no_json_result_def parse_error_result_def)

theorem malformed_reply_gives_default_witness:
  \<open>analyzeWithGemini_normalize json_parse (Some (JStr ''blah blah not json'')) = JObj
        [(''foodDetected'', JBool False),
         (''message'', JStr ''Unable to analyze image. Please take a clear photo of food items.'')]
   \<and> match_braces ''I see {not json} here'' = Some ''{not json}''
   \<and> json_parse ''{not json}'' = None
   \<and> analyzeWithPerplexity_normalize json_parse (Some (JStr ''I see {not json} here'')) = JObj
        [(''foodDetected'', JBool False),
         (''message'', JStr ''Error analyzing image. Please try again with a clear photo of food items.'')]\<close>
proof -
  have \<open>match_braces ''blah blah not json'' = None\<close> by code_simp
  then have a: \<open>\<nexists>pre mid post. ''blah blah not json'' = pre @ CHR ''{'' # mid @ CHR ''}'' # post\<close>
    by (rule iffD1 [OF match_braces_None_iff])
  have b: \<open>match_braces ''I see {not json} here'' = Some ''{not json}''\<close> by code_simp
  have c: \<open>json_parse ''{not json}'' = None\<close> by code_simp
  from malformed_reply_gives_default [where s = \<open>''blah blah not json''\<close> and parse = json_parse, THEN conjunct1, THEN mp, OF a]
    malformed_reply_gives_default [where s = \<open>''I see {not json} here''\<close> and m = \<open>''{not json}''\<close>
      and parse = json_parse,
      THEN conjunct2, THEN mp, OF conjI, OF b c] b c
  show ?thesis by simp
qed

text \<open>
  Claim C6. When the matched text parses to an object whose \<^verbatim>\<open>foodDetected\<close> is missing
  or is neither \<^verbatim>\<open>true\<close> nor \<^verbatim>\<open>false\<close>, the result has \<^verbatim>\<open>foodDetected\<close> \<^verbatim>\<open>false\<close> and
  the message that the presence of food could not be determined.
\<close>

theorem flag_missing_gives_undetermined:
  assumes "match_braces s = Some m" and "parse m = Some (JObj kv)"
    and "map_of kv ''foodDetected'' \<noteq> Some (JBool True)"
    and "map_of kv ''foodDetected'' \<noteq> Some (JBool False)"
  shows "analyzeWithGemini_normalize parse (Some (JStr s)) = JObj
        [(''foodDetected'', JBool False),
         (''message'', JStr ''Unable to determine if food is present. Please take a clear photo of food items.'')]
      \<and> analyzeWithPerplexity_normalize parse (Some (JStr s)) = JObj
        [(''foodDetected'', JBool False),
         (''message'', JStr ''Unable to determine if food is present. Please take a clear photo of food items.'')]"
  using normalize_parsed_object [of s m parse kv] assms
  by (simp add: undetermined_result_def)

theorem flag_missing_gives_undetermined_witness:
  \<open>match_braces ''Result: {"rating": 3}'' = Some ''{"rating": 3}''
   \<and> json_parse ''{"rating": 3}'' = Some (JObj [(''rating'', JNum 3)])
   \<and> analyzeWithGemini_normalize json_parse (Some (JStr ''Result: {"rating": 3}'')) = JObj
        [(''foodDetected'', JBool False),
         (''message'', JStr ''Unable to determine if food is present. Please take a clear photo of food items.'')]\<close>
proof -
  have a: \<open>match_braces ''Result: {"rating": 3}'' = Some ''{"rating": 3}''\<close> by code_simp
  have b: \<open>json_parse ''{"rating": 3}'' = Some (JObj [(''rating'', JNum 3)])\<close> by code_simp
  from flag_missing_gives_undetermined [where parse = json_parse, OF a b] a b show ?thesis by simp
qed

text \<open>
  Claim C7. For the reply \<^verbatim>\<open>here you go: {"foodDetected":false,"message":"x"}\<close> the match
  is the text from the opening to the closing brace, and with a \<^verbatim>\<open>JSON.parse\<close> that reads
  this text as the object it writes, the result is that object: \<^verbatim>\<open>foodDetected\<close>
  \<^verbatim>\<open>false\<close> and \<^verbatim>\<open>message\<close> \<^verbatim>\<open>x\<close>.
\<close>

theorem embedded_json_reply:
  assumes \<open>parse ''{"foodDetected":false,"message":"x"}'' =
             Some (JObj [(''foodDetected'', JBool False), (''message'', JStr ''x'')])\<close>
  shows \<open>match_braces ''here you go: {"foodDetected":false,"message":"x"}'' =
             Some ''{"foodDetected":false,"message":"x"}''
         \<and> analyzeWithGemini_normalize parse (Some (JStr ''here you go: {"foodDetected":false,"message":"x"}'')) =
             JObj [(''foodDetected'', JBool False), (''message'', JStr ''x'')]
         \<and> analyzeWithPerplexity_normalize parse (Some (JStr ''here you go: {"foodDetected":false,"message":"x"}'')) =
             JObj [(''foodDetected'', JBool False), (''message'', JStr ''x'')]\<close>
proof -
  have m: \<open>match_braces ''here you go: {"foodDetected":false,"message":"x"}'' =
             Some ''{"foodDetected":false,"message":"x"}''\<close>
    by code_simp
  from normalize_parsed_object [where parse = parse, OF m assms] m show ?thesis by simp
qed

theorem embedded_json_reply_witness:
  \<open>json_parse ''{"foodDetected":false,"message":"x"}'' =
             Some (JObj [(''foodDetected'', JBool False), (''message'', JStr ''x'')])
   \<and> analyzeWithGemini_normalize json_parse (Some (JStr ''here you go: {"foodDetected":false,"message":"x"}'')) =
             JObj [(''foodDetected'', JBool False), (''message'', JStr ''x'')]\<close>
proof -
  have p: \<open>json_parse ''{"foodDetected":false,"message":"x"}'' =
             Some (JObj [(''foodDetected'', JBool False), (''message'', JStr ''x'')])\<close>
    by code_simp
  from embedded_json_reply [where parse = json_parse, OF p] p show ?thesis by simp
qed

section \<open>Key validation\<close>

text \<open>
  Claim C8. For every string key, \<^verbatim>\<open>isValidAPIKey\<close> returns \<^verbatim>\<open>true\<close> exactly when the key
  starts with \<^verbatim>\<open>pplx-\<close>, is not the placeholder and is longer than 20, and
  \<^verbatim>\<open>isValidGeminiAPIKey\<close> returns \<^verbatim>\<open>true\<close> exactly when the key starts with \<^verbatim>\<open>AIza\<close> and
  is longer than 20; the same holds of the truthiness of what they return, which is what
  the callers test. The key \<^verbatim>\<open>AIzaSyTESTKEY1234567890\<close> is valid, \<^verbatim>\<open>short\<close> is not, and the
  placeholder is not.
\<close>

theorem key_validators:
  "(isValidAPIKey (Some k) = Some (JBool True)
      \<longleftrightarrow> prefix ''pplx-'' k \<and> k \<noteq> ''pplx-xxxxxxxxxxxxxxxxxxxxxxxxxxxxxxxxxxxxxxxx'' \<and> length k > 20)
   \<and> (truthy (isValidAPIKey (Some k))
      \<longleftrightarrow> prefix ''pplx-'' k \<and> k \<noteq> ''pplx-xxxxxxxxxxxxxxxxxxxxxxxxxxxxxxxxxxxxxxxx'' \<and> length k > 20)
   \<and> (isValidGeminiAPIKey (Some k) = Some (JBool True) \<longleftrightarrow> prefix ''AIza'' k \<and> length k > 20)
   \<and> (truthy (isValidGeminiAPIKey (Some k)) \<longleftrightarrow> prefix ''AIza'' k \<and> length k > 20)
   \<and> isValidGeminiAPIKey (Some ''AIzaSyTESTKEY1234567890'') = Some (JBool True)
   \<and> isValidGeminiAPIKey (Some ''short'') = Some (JBool False)
   \<and> isValidAPIKey (Some ''pplx-xxxxxxxxxxxxxxxxxxxxxxxxxxxxxxxxxxxxxxxx'') = Some (JBool False)"
  by (auto simp: isValidAPIKey_def isValidGeminiAPIKey_def placeholder_key_def)

theorem key_validators_witness:
  "isValidAPIKey (Some ''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'') = Some (JBool True)
   \<and> isValidGeminiAPIKey (Some ''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'') \<noteq> Some (JBool True)"
  using key_validators [of "''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''"]
  by simp

section \<open>The analysis route\<close>

lemma analyze_route_object:
  "analyze_route parse env outcome (JObj kv) =
     (if \<not> truthy (map_of kv ''imageData'') then
        \<lparr>code = 400,
         payload = error_body ''Missing image data'' ''Image data is required for analysis'',
         invoked = []\<rparr>
      else if map_of kv ''provider'' = None \<or> map_of kv ''provider'' = Some (JStr ''gemini'')
        then gemini_branch parse env outcome (map_of kv ''imageData'')
      else perplexity_branch parse env outcome (map_of kv ''imageData''))"
  by (cases "map_of kv ''provider''") (simp_all add: analyze_route_def exn_bind_def)

lemma gemini_branch_invalid_key:
  "\<not> truthy (isValidGeminiAPIKey (GEMINI_API_KEY env)) \<Longrightarrow>
     gemini_branch parse env outcome imageData =
       \<lparr>code = 400,
        payload = error_body ''Gemini API key not configured''
          ''Please set a valid Gemini API key in environment variables'',
        invoked = []\<rparr>"
  by (simp add: gemini_branch_def)

text \<open>
  Claim C4. A request whose body has no \<^verbatim>\<open>imageData\<close> member is answered with status 400
  and the body with the members \<^verbatim>\<open>error\<close> and \<^verbatim>\<open>message\<close>, and neither analysis function
  is called.
\<close>

theorem missing_image_data_rejected:
  assumes "map_of kv ''imageData'' = None"
  shows "analyze_route parse env outcome (JObj kv) =
           \<lparr>code = 400,
            payload = Json (JObj [(''error'', JStr ''Missing image data''),
                                  (''message'', JStr ''Image data is required for analysis'')]),
            invoked = []\<rparr>"
  using assms by (simp add: analyze_route_object error_body_def)

theorem missing_image_data_rejected_witness:
  "analyze_route json_parse
      \<lparr>GEMINI_API_KEY = Some ''AIzaSyTESTKEY1234567890'', PERPLEXITY_API_KEY = None,
       DEFAULT_AI_PROVIDER = None\<rparr>
      (Responded \<lparr>status = 200, body = Some ''{}''\<rparr>)
      (JObj [(''provider'', JStr ''gemini'')]) =
     \<lparr>code = 400,
      payload = Json (JObj [(''error'', JStr ''Missing image data''),
                            (''message'', JStr ''Image data is required for analysis'')]),
      invoked = []\<rparr>"
  using missing_image_data_rejected [where kv = "[(''provider'', JStr ''gemini'')]"]
  by simp

text \<open>
  Claim C3, as the code has it. The request with the image
  \<^verbatim>\<open>data:image/jpeg;base64,Zm9v\<close> and the provider \<^verbatim>\<open>gemini\<close>, when the Gemini key is absent
  or fails \<^verbatim>\<open>isValidGeminiAPIKey\<close>, is answered with status 400 and the error body that
  says the Gemini key is not configured; no analysis function is called. The server has
  no mock generator.
\<close>

theorem unconfigured_gemini_rejected:
  assumes "\<not> truthy (isValidGeminiAPIKey (GEMINI_API_KEY env))"
  shows "analyze_route parse env outcome
           (JObj [(''imageData'', JStr ''data:image/jpeg;base64,Zm9v''), (''provider'', JStr ''gemini'')]) =
           \<lparr>code = 400,
            payload = Json (JObj [(''error'', JStr ''Gemini API key not configured''),
                                  (''message'', JStr ''Please set a valid Gemini API key in environment variables'')]),
            invoked = []\<rparr>"
  using gemini_branch_invalid_key [OF assms]
  by (simp add: analyze_route_object error_body_def)

theorem unconfigured_gemini_rejected_witness:
  "analyze_route json_parse
      \<lparr>GEMINI_API_KEY = Some ''short'', PERPLEXITY_API_KEY = None, DEFAULT_AI_PROVIDER = None\<rparr>
      Rejected
      (JObj [(''imageData'', JStr ''data:image/jpeg;base64,Zm9v''), (''provider'', JStr ''gemini'')]) =
     \<lparr>code = 400,
      payload = Json (JObj [(''error'', JStr ''Gemini API key not configured''),
                            (''message'', JStr ''Please set a valid Gemini API key in environment variables'')]),
      invoked = []\<rparr>"
  using unconfigured_gemini_rejected
    [where env = "\<lparr>GEMINI_API_KEY = Some ''short'', PERPLEXITY_API_KEY = None, DEFAULT_AI_PROVIDER = None\<rparr>"]
  by (simp add: isValidGeminiAPIKey_def)

text \<open>
  Claim C3 as the specification states it fails: with no Gemini key the status of the
  answer is 400, not 200, and the body is the error body.
\<close>

theorem unconfigured_gemini_not_200_counterexample:
  "code (analyze_route json_parse
      \<lparr>GEMINI_API_KEY = None, PERPLEXITY_API_KEY = None, DEFAULT_AI_PROVIDER = None\<rparr>
      Rejected
      (JObj [(''imageData'', JStr ''data:image/jpeg;base64,Zm9v''), (''provider'', JStr ''gemini'')])) = 400
   \<and> code (analyze_route json_parse
      \<lparr>GEMINI_API_KEY = None, PERPLEXITY_API_KEY = None, DEFAULT_AI_PROVIDER = None\<rparr>
      Rejected
      (JObj [(''imageData'', JStr ''data:image/jpeg;base64,Zm9v''), (''provider'', JStr ''gemini'')])) \<noteq> 200
   \<and> payload (analyze_route json_parse
      \<lparr>GEMINI_API_KEY = None, PERPLEXITY_API_KEY = None, DEFAULT_AI_PROVIDER = None\<rparr>
      Rejected
      (JObj [(''imageData'', JStr ''data:image/jpeg;base64,Zm9v''), (''provider'', JStr ''gemini'')])) =
       Json (JObj [(''error'', JStr ''Gemini API key not configured''),
                   (''message'', JStr ''Please set a valid Gemini API key in environment variables'')])"
  by (simp add: analyze_route_object gemini_branch_def isValidGeminiAPIKey_def error_body_def)

text \<open>
  Claim C10. For a request with an image, a missing \<^verbatim>\<open>provider\<close> and the provider
  \<^verbatim>\<open>gemini\<close> are handled by the Gemini path: \<^verbatim>\<open>isValidGeminiAPIKey\<close> on the Gemini key, the
  answer 400 with the Gemini error body when it rejects the key, and otherwise the answer
  made of what \<^verbatim>\<open>analyzeWithGemini\<close> returns or throws. Every other provider value, whatever
  it is, is handled by the Perplexity path: \<^verbatim>\<open>isValidAPIKey\<close> on the Perplexity key, the
  answer 400 with the Perplexity error body when it rejects the key, and otherwise the
  answer made of what \<^verbatim>\<open>analyzeWithPerplexity\<close> returns or throws.
\<close>

theorem provider_dispatch:
  assumes "truthy (map_of kv ''imageData'')"
  shows "(map_of kv ''provider'' = None \<or> map_of kv ''provider'' = Some (JStr ''gemini'') \<longrightarrow>
            analyze_route parse env outcome (JObj kv) =
              (if \<not> truthy (isValidGeminiAPIKey (GEMINI_API_KEY env)) then
                 \<lparr>code = 400,
                  payload = Json (JObj [(''error'', JStr ''Gemini API key not configured''),
                     (''message'', JStr ''Please set a valid Gemini API key in environment variables'')]),
                  invoked = []\<rparr>
               else
                 (case analyzeWithGemini parse outcome (map_of kv ''imageData'') (GEMINI_API_KEY env) of
                    Inl e \<Rightarrow> \<lparr>code = 500, payload = Failure ''Analysis failed'' e, invoked = [Gemini]\<rparr>
                  | Inr analysisResult \<Rightarrow>
                      \<lparr>code = 200, payload = Json analysisResult, invoked = [Gemini]\<rparr>)))
       \<and> (\<forall>v. map_of kv ''provider'' = Some v \<and> v \<noteq> JStr ''gemini'' \<longrightarrow>
            analyze_route parse env outcome (JObj kv) =
              (if \<not> truthy (isValidAPIKey (PERPLEXITY_API_KEY env)) then
                 \<lparr>code = 400,
                  payload = Json (JObj [(''error'', JStr ''Perplexity API key not configured''),
                     (''message'', JStr ''Please set a valid Perplexity API key in environment variables'')]),
                  invoked = []\<rparr>
               else
                 (case analyzeWithPerplexity parse outcome (map_of kv ''imageData'') (PERPLEXITY_API_KEY env) of
                    Inl e \<Rightarrow> \<lparr>code = 500, payload = Failure ''Analysis failed'' e, invoked = [Perplexity]\<rparr>
                  | Inr analysisResult \<Rightarrow>
                      \<lparr>code = 200, payload = Json analysisResult, invoked = [Perplexity]\<rparr>)))"
proof (intro conjI impI allI)
  assume "map_of kv ''provider'' = None \<or> map_of kv ''provider'' = Some (JStr ''gemini'')"
  with assms have "analyze_route parse env outcome (JObj kv) =
      gemini_branch parse env outcome (map_of kv ''imageData'')"
    by (simp add: analyze_route_object)
  then show "analyze_route parse env outcome (JObj kv) =
      (if \<not> truthy (isValidGeminiAPIKey (GEMINI_API_KEY env)) then
         \<lparr>code = 400,
          payload = Json (JObj [(''error'', JStr ''Gemini API key not configured''),
             (''message'', JStr ''Please set a valid Gemini API key in environment variables'')]),
          invoked = []\<rparr>
       else
         (case analyzeWithGemini parse outcome (map_of kv ''imageData'') (GEMINI_API_KEY env) of
            Inl e \<Rightarrow> \<lparr>code = 500, payload = Failure ''Analysis failed'' e, invoked = [Gemini]\<rparr>
          | Inr analysisResult \<Rightarrow>
              \<lparr>code = 200, payload = Json analysisResult, invoked = [Gemini]\<rparr>))"
    by (simp add: gemini_branch_def Let_def error_body_def)
next
  fix v
  assume "map_of kv ''provider'' = Some v \<and> v \<noteq> JStr ''gemini''"
  with assms have "analyze_route parse env outcome (JObj kv) =
      perplexity_branch parse env outcome (map_of kv ''imageData'')"
    by (simp add: analyze_route_object)
  then show "analyze_route parse env outcome (JObj kv) =
      (if \<not> truthy (isValidAPIKey (PERPLEXITY_API_KEY env)) then
         \<lparr>code = 400,
          payload = Json (JObj [(''error'', JStr ''Perplexity API key not configured''),
             (''message'', JStr ''Please set a valid Perplexity API key in environment variables'')]),
          invoked = []\<rparr>
       else
         (case analyzeWithPerplexity parse outcome (map_of kv ''imageData'') (PERPLEXITY_API_KEY env) of
            Inl e \<Rightarrow> \<lparr>code = 500, payload = Failure ''Analysis failed'' e, invoked = [Perplexity]\<rparr>
          | Inr analysisResult \<Rightarrow>
              \<lparr>code = 200, payload = Json analysisResult, invoked = [Perplexity]\<rparr>))"
    by (simp add: perplexity_branch_def Let_def error_body_def)
qed

theorem provider_dispatch_witness:
  \<open>analyze_route json_parse
      \<lparr>GEMINI_API_KEY = Some ''AIzaSyTESTKEY1234567890'',
       PERPLEXITY_API_KEY = Some ''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'',
       DEFAULT_AI_PROVIDER = None\<rparr>
      (Responded \<lparr>status = 200, body = Some ''{"choices":[{"message":{"content":"nothing found"}}]}''\<rparr>)
      (JObj [(''imageData'', JStr ''data:image/jpeg;base64,Zm9v''), (''provider'', JStr ''openai'')]) =
     \<lparr>code = 200,
      payload = Json (JObj [(''foodDetected'', JBool False),
         (''message'', JStr ''Unable to analyze image. Please take a clear photo of food items.'')]),
      invoked = [Perplexity]\<rparr>
   \<and> analyze_route json_parse
      \<lparr>GEMINI_API_KEY = Some ''AIzaSyTESTKEY1234567890'',
       PERPLEXITY_API_KEY = Some ''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'',
       DEFAULT_AI_PROVIDER = None\<rparr>
      (Responded \<lparr>status = 200, body = Some ''{"choices":[{"message":{"content":"nothing found"}}]}''\<rparr>)
      (JObj [(''imageData'', JStr ''data:image/jpeg;base64,Zm9v'')]) =
     \<lparr>code = 500, payload = Failure ''Analysis failed'' TypeError, invoked = [Gemini]\<rparr>
   \<and> analyze_route json_parse
      \<lparr>GEMINI_API_KEY = Some ''AIzaSyTESTKEY1234567890'',
       PERPLEXITY_API_KEY = Some ''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'',
       DEFAULT_AI_PROVIDER = None\<rparr>
      (Responded \<lparr>status = 503, body = Some ''down''\<rparr>)
      (JObj [(''imageData'', JStr ''data:image/jpeg;base64,Zm9v''), (''provider'', JStr ''perplexity'')]) =
     \<lparr>code = 500, payload = Failure ''Analysis failed'' (Error ''Perplexity API failed: 503 - down''),
      invoked = [Perplexity]\<rparr>\<close>
proof -
  let ?env = "\<lparr>GEMINI_API_KEY = Some ''AIzaSyTESTKEY1234567890'',
       PERPLEXITY_API_KEY = Some ''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'',
       DEFAULT_AI_PROVIDER = None\<rparr>"
  let ?img = "Some (JStr ''data:image/jpeg;base64,Zm9v'')"
  let ?ok = \<open>Responded \<lparr>status = 200, body = Some ''{"choices":[{"message":{"content":"nothing found"}}]}''\<rparr>\<close>
  let ?down = "Responded \<lparr>status = 503, body = Some ''down''\<rparr>"
  have a: "truthy (map_of [(''imageData'', JStr ''data:image/jpeg;base64,Zm9v''), (''provider'', JStr ''openai'')] ''imageData'')"
    by simp
  have b: "truthy (map_of [(''imageData'', JStr ''data:image/jpeg;base64,Zm9v'')] ''imageData'')"
    by simp
  have c: "truthy (map_of [(''imageData'', JStr ''data:image/jpeg;base64,Zm9v''), (''provider'', JStr ''perplexity'')] ''imageData'')"
    by simp
  have kp: "truthy (isValidAPIKey (PERPLEXITY_API_KEY ?env))"
    by (simp add: isValidAPIKey_def placeholder_key_def)
  have kg: "truthy (isValidGeminiAPIKey (GEMINI_API_KEY ?env))"
    by (simp add: isValidGeminiAPIKey_def)
  have p1: "analyzeWithPerplexity json_parse ?ok ?img (PERPLEXITY_API_KEY ?env) = Inr no_json_result"
    by code_simp
  have g1: "analyzeWithGemini json_parse ?ok ?img (GEMINI_API_KEY ?env) = Inl TypeError"
    by code_simp
  have p2: "analyzeWithPerplexity json_parse ?down ?img (PERPLEXITY_API_KEY ?env) =
      Inl (Error ''Perplexity API failed: 503 - down'')"
    by code_simp
  from provider_dispatch [OF a, where parse = json_parse and env = ?env and outcome = ?ok] kp p1
  have r1: "analyze_route json_parse ?env ?ok
      (JObj [(''imageData'', JStr ''data:image/jpeg;base64,Zm9v''), (''provider'', JStr ''openai'')]) =
      \<lparr>code = 200, payload = Json no_json_result, invoked = [Perplexity]\<rparr>"
    by simp
  from provider_dispatch [OF b, where parse = json_parse and env = ?env and outcome = ?ok] kg g1
  have r2: "analyze_route json_parse ?env ?ok
      (JObj [(''imageData'', JStr ''data:image/jpeg;base64,Zm9v'')]) =
      \<lparr>code = 500, payload = Failure ''Analysis failed'' TypeError, invoked = [Gemini]\<rparr>"
    by simp
  from provider_dispatch [OF c, where parse = json_parse and env = ?env and outcome = ?down] kp p2
  have r3: "analyze_route json_parse ?env ?down
      (JObj [(''imageData'', JStr ''data:image/jpeg;base64,Zm9v''), (''provider'', JStr ''perplexity'')]) =
      \<lparr>code = 500, payload = Failure ''Analysis failed'' (Error ''Perplexity API failed: 503 - down''),
        invoked = [Perplexity]\<rparr>"
    by simp
  from r1 r2 r3 show ?thesis by (simp add: no_json_result_def)
qed

section \<open>The rounding of the product\<close>

lemma round_half_even_lower: "\<lfloor>q\<rfloor> \<le> round_half_even q"
  by (simp add: round_half_even_def Let_def)

lemma round_half_even_upper: "round_half_even q \<le> \<lfloor>q\<rfloor> + 1"
  by (simp add: round_half_even_def Let_def)

lemma round_half_even_ge_iff:
  assumes "even N"
  shows "N \<le> round_half_even q \<longleftrightarrow> of_int N - 1 / 2 \<le> q"
proof
  assume ge: "N \<le> round_half_even q"
  with round_half_even_upper [of q] have n: "N - 1 \<le> \<lfloor>q\<rfloor>" by linarith
  show "of_int N - 1 / 2 \<le> q"
  proof (cases "N \<le> \<lfloor>q\<rfloor>")
    case True
    then have "of_int N \<le> q" by (simp add: le_floor_iff)
    then show ?thesis by linarith
  next
    case False
    with n have f: "\<lfloor>q\<rfloor> = N - 1" by linarith
    have "\<not> q - of_int \<lfloor>q\<rfloor> < 1 / 2"
    proof
      assume "q - of_int \<lfloor>q\<rfloor> < 1 / 2"
      then have "round_half_even q = \<lfloor>q\<rfloor>" by (simp add: round_half_even_def Let_def)
      with ge f show False by linarith
    qed
    with f show ?thesis by simp
  qed
next
  assume le: "of_int N - 1 / 2 \<le> q"
  then have "of_int (N - 1) \<le> q" by simp
  then have n: "N - 1 \<le> \<lfloor>q\<rfloor>" by (simp only: le_floor_iff)
  show "N \<le> round_half_even q"
  proof (cases "N \<le> \<lfloor>q\<rfloor>")
    case True
    with round_half_even_lower [of q] show ?thesis by linarith
  next
    case False
    with n have f: "\<lfloor>q\<rfloor> = N - 1" by linarith
    with assms have odd: "odd \<lfloor>q\<rfloor>" by simp
    from le f have "\<not> q - of_int \<lfloor>q\<rfloor> < 1 / 2" by simp
    with odd have "round_half_even q = \<lfloor>q\<rfloor> + 1" by (simp add: round_half_even_def Let_def)
    with f show ?thesis by simp
  qed
qed

lemma binade_unit: "1 \<le> x \<Longrightarrow> x < 2 \<Longrightarrow> binade (Suc n) x = 0"
  by simp

lemma binade_half: "1 / 2 \<le> x \<Longrightarrow> x < 1 \<Longrightarrow> binade (Suc (Suc n)) x = - 1"
  by simp

lemma binade_two: "2 \<le> x \<Longrightarrow> x < 4 \<Longrightarrow> binade (Suc (Suc n)) x = 1"
  by simp

lemma binade_below_two: "x < 2 \<Longrightarrow> binade n x \<le> 0"
proof (induction n arbitrary: x)
  case 0
  then show ?case by simp
next
  case (Suc n)
  show ?case
  proof (cases "x < 1")
    case True
    then have "x * 2 < 2" by simp
    from Suc.IH [OF this] True show ?thesis by simp
  next
    case False
    with Suc.prems show ?thesis by simp
  qed
qed

lemma binade_small: "x < 1 / 2 \<Longrightarrow> binade (Suc (Suc n)) x \<le> - 2"
proof -
  assume x: "x < 1 / 2"
  then have "x * 2 * 2 < 2" by simp
  from binade_below_two [OF this, of n] x show ?thesis by simp
qed

lemma binade_fuel: "(1100::nat) = Suc (Suc 1098)"
  by simp

lemma binade_fuel_half: "1 / 2 \<le> x \<Longrightarrow> x < 1 \<Longrightarrow> binade 1100 x = - 1"
  unfolding binade_fuel by (rule binade_half)

lemma binade_fuel_unit: "1 \<le> x \<Longrightarrow> x < 2 \<Longrightarrow> binade 1100 x = 0"
  unfolding binade_fuel by (rule binade_unit)

lemma binade_fuel_two: "2 \<le> x \<Longrightarrow> x < 4 \<Longrightarrow> binade 1100 x = 1"
  unfolding binade_fuel by (rule binade_two)

lemma binade_fuel_small: "x < 1 / 2 \<Longrightarrow> binade 1100 x \<le> - 2"
  unfolding binade_fuel by (rule binade_small)

lemma ulp_half: "1 / 2 \<le> x \<Longrightarrow> x < 1 \<Longrightarrow> ulp x = 1 / 2 ^ 53"
  by (simp add: ulp_def binade_fuel_half)

lemma ulp_unit: "1 \<le> x \<Longrightarrow> x < 2 \<Longrightarrow> ulp x = 1 / 2 ^ 52"
  by (simp add: ulp_def binade_fuel_unit)

lemma ulp_two: "2 \<le> x \<Longrightarrow> x < 4 \<Longrightarrow> ulp x = 1 / 2 ^ 51"
  by (simp add: ulp_def binade_fuel_two)

lemma ulp_small:
  assumes "0 \<le> x" "x < 1 / 2"
  shows "0 < ulp x \<and> ulp x \<le> 1 / 2 ^ 54"
proof -
  define e where "e = max (binade 1100 \<bar>x\<bar>) (- 1022) - 52"
  from assms have "\<bar>x\<bar> < 1 / 2" by simp
  then have "binade 1100 \<bar>x\<bar> \<le> - 2" by (rule binade_fuel_small)
  then have e: "e \<le> - 54" by (simp add: e_def)
  then have u: "ulp x = 1 / 2 ^ nat (- e)" by (simp add: ulp_def e_def Let_def)
  from e have "54 \<le> nat (- e)" by simp
  then have "(2::real) ^ 54 \<le> 2 ^ nat (- e)" by (rule power_increasing) simp
  then have "1 / 2 ^ nat (- e) \<le> 1 / (2::real) ^ 54" by (simp add: field_simps)
  with u show ?thesis by simp
qed

lemma floor_double_round_small:
  assumes "0 \<le> x" "x < 1 / 2"
  shows "\<lfloor>double_round x\<rfloor> = 0"
proof -
  define u where "u = ulp x"
  define k where "k = round_half_even (x / u)"
  from ulp_small [OF assms] have u: "0 < u" "u \<le> 1 / 2 ^ 54" by (simp_all add: u_def)
  have d: "double_round x = of_int k * u" by (simp add: double_round_def k_def u_def)
  from assms u have "0 \<le> x / u" by simp
  then have "0 \<le> \<lfloor>x / u\<rfloor>" by simp
  from this round_half_even_lower [of "x / u"] have "0 \<le> k" unfolding k_def by (rule order_trans)
  with u have lo: "0 \<le> of_int k * u" by simp
  from round_half_even_upper [of "x / u"] have "of_int k \<le> of_int \<lfloor>x / u\<rfloor> + (1::real)"
    unfolding k_def by simp
  also have "\<dots> \<le> x / u + 1" by simp
  finally have "of_int k * u \<le> (x / u + 1) * u" using u by (simp add: mult_right_mono)
  also from u have "(x / u + 1) * u = x + u" by (simp add: field_simps)
  finally have "of_int k * u \<le> x + u" .
  with assms u have hi: "of_int k * u < 1" by simp
  from lo hi show ?thesis unfolding d by (simp add: floor_eq_iff)
qed

lemma floor_double_round_half:
  assumes "1 / 2 \<le> x" "x < 1"
  shows "\<lfloor>double_round x\<rfloor> = (if 1 - 1 / 2 ^ 54 \<le> x then 1 else 0)"
proof -
  define k where "k = round_half_even (x * 2 ^ 53)"
  have d: "double_round x = of_int k / 2 ^ 53"
    by (simp add: double_round_def ulp_half [OF assms] k_def)
  from assms have q: "2 ^ 52 \<le> x * 2 ^ 53" "x * 2 ^ 53 < 2 ^ 53" by simp_all
  from q(1) have "(2::int) ^ 52 \<le> \<lfloor>x * 2 ^ 53\<rfloor>" by (simp add: le_floor_iff)
  from this round_half_even_lower [of "x * 2 ^ 53"] have lo: "2 ^ 52 \<le> k"
    unfolding k_def by (rule order_trans)
  from q(2) have "\<lfloor>x * 2 ^ 53\<rfloor> < (2::int) ^ 53" by (simp add: floor_less_iff)
  with round_half_even_upper [of "x * 2 ^ 53"] have hi: "k \<le> 2 ^ 53"
    unfolding k_def by linarith
  have iff: "2 ^ 53 \<le> k \<longleftrightarrow> 1 - 1 / 2 ^ 54 \<le> x"
    unfolding k_def using round_half_even_ge_iff [of "2 ^ 53" "x * 2 ^ 53"] by (simp add: mult.commute)
  show ?thesis
  proof (cases "1 - 1 / 2 ^ 54 \<le> x")
    case True
    with iff hi have "k = 2 ^ 53" by simp
    with True show ?thesis unfolding d by simp
  next
    case False
    with iff have "k < 2 ^ 53" by simp
    then have "(of_int k :: real) < 2 ^ 53" by simp
    moreover from lo have "(0::real) \<le> of_int k" by simp
    ultimately have "\<lfloor>(of_int k :: real) / 2 ^ 53\<rfloor> = 0" by (simp add: floor_eq_iff)
    with False show ?thesis unfolding d by simp
  qed
qed

lemma floor_double_round_unit:
  assumes "1 \<le> x" "x < 2"
  shows "\<lfloor>double_round x\<rfloor> = (if 2 - 1 / 2 ^ 53 \<le> x then 2 else 1)"
proof -
  define k where "k = round_half_even (x * 2 ^ 52)"
  have d: "double_round x = of_int k / 2 ^ 52"
    by (simp add: double_round_def ulp_unit [OF assms] k_def)
  from assms have q: "2 ^ 52 \<le> x * 2 ^ 52" "x * 2 ^ 52 < 2 ^ 53" by simp_all
  from q(1) have "(2::int) ^ 52 \<le> \<lfloor>x * 2 ^ 52\<rfloor>" by (simp add: le_floor_iff)
  from this round_half_even_lower [of "x * 2 ^ 52"] have lo: "2 ^ 52 \<le> k"
    unfolding k_def by (rule order_trans)
  from q(2) have "\<lfloor>x * 2 ^ 52\<rfloor> < (2::int) ^ 53" by (simp add: floor_less_iff)
  with round_half_even_upper [of "x * 2 ^ 52"] have hi: "k \<le> 2 ^ 53"
    unfolding k_def by linarith
  have iff: "2 ^ 53 \<le> k \<longleftrightarrow> 2 - 1 / 2 ^ 53 \<le> x"
    unfolding k_def using round_half_even_ge_iff [of "2 ^ 53" "x * 2 ^ 52"] by (simp add: mult.commute)
  show ?thesis
  proof (cases "2 - 1 / 2 ^ 53 \<le> x")
    case True
    with iff hi have "k = 2 ^ 53" by simp
    with True show ?thesis unfolding d by simp
  next
    case False
    with iff have "k < 2 ^ 53" by simp
    then have "(of_int k :: real) < 2 ^ 53" by simp
    moreover from lo have "(2::real) ^ 52 \<le> of_int k" by simp
    ultimately have "\<lfloor>(of_int k :: real) / 2 ^ 52\<rfloor> = 1" by (simp add: floor_eq_iff)
    with False show ?thesis unfolding d by simp
  qed
qed

lemma floor_double_round_two:
  assumes "2 \<le> x" "x \<le> 3 - 3 / 2 ^ 53"
  shows "\<lfloor>double_round x\<rfloor> = 2"
proof -
  define k where "k = round_half_even (x * 2 ^ 51)"
  from assms have x4: "x < 4" by simp
  have d: "double_round x = of_int k / 2 ^ 51"
    by (simp add: double_round_def ulp_two [OF assms(1) x4] k_def)
  from assms have q: "2 ^ 52 \<le> x * 2 ^ 51" "x * 2 ^ 51 < 3 * 2 ^ 51 - 1 / 2" by simp_all
  from q(1) have "(2::int) ^ 52 \<le> \<lfloor>x * 2 ^ 51\<rfloor>" by (simp add: le_floor_iff)
  from this round_half_even_lower [of "x * 2 ^ 51"] have lo: "2 ^ 52 \<le> k"
    unfolding k_def by (rule order_trans)
  have "\<not> 3 * 2 ^ 51 \<le> k"
    unfolding k_def using round_half_even_ge_iff [of "3 * 2 ^ 51" "x * 2 ^ 51"] q(2)
    by (simp add: mult.commute)
  then have "k < 3 * 2 ^ 51" by simp
  then have "(of_int k :: real) < 3 * 2 ^ 51" by simp
  moreover from lo have "(2::real) ^ 52 \<le> of_int k" by simp
  ultimately show ?thesis unfolding d by (simp add: floor_eq_iff)
qed

lemma draw_index:
  assumes "0 \<le> r2" "r2 \<le> 1 - 1 / 2 ^ 53"
  shows "\<lfloor>double_round (r2 * 3)\<rfloor> =
           (if r2 < (1 - 1 / 2 ^ 54) / 3 then 0 else if r2 < (2 - 1 / 2 ^ 53) / 3 then 1 else 2)"
proof -
  consider "r2 * 3 < 1 / 2" | "1 / 2 \<le> r2 * 3" "r2 * 3 < 1" | "1 \<le> r2 * 3" "r2 * 3 < 2"
    | "2 \<le> r2 * 3" by linarith
  then show ?thesis
  proof cases
    case 1
    with assms floor_double_round_small [of "r2 * 3"] show ?thesis by simp
  next
    case 2
    with floor_double_round_half [of "r2 * 3"] show ?thesis by simp
  next
    case 3
    with floor_double_round_unit [of "r2 * 3"] show ?thesis by simp
  next
    case 4
    with assms floor_double_round_two [of "r2 * 3"] show ?thesis by simp
  qed
qed

section \<open>The mock generator\<close>

lemma mockData_length: "length mockData = 3"
  by (simp add: mockData_def)


lemma no_food_not_in_mockData: "no_food_result \<notin> set mockData"
  by (simp add: mockData_def no_food_result_def)



lemma element_at_in_range:
  "0 \<le> j \<Longrightarrow> j < 3 \<Longrightarrow> element_at mockData j \<in> Some ` set mockData"
  by (simp add: element_at_def mockData_length)

lemma getMock_no_food:
  "getMockAnalysisResult r1 r2 = Some no_food_result \<longleftrightarrow> r1 \<le> 7 / 10"
proof (cases "r1 \<le> 7 / 10")
  case True
  then show ?thesis by (simp add: getMockAnalysisResult_def)
next
  case False
  have "element_at mockData j \<noteq> Some no_food_result" for j
  proof (cases "0 \<le> j \<and> j < int (length mockData)")
    case True
    then have "nat j < length mockData" by linarith
    then have "mockData ! nat j \<in> set mockData" by (rule nth_mem)
    with no_food_not_in_mockData have "mockData ! nat j \<noteq> no_food_result" by metis
    with True show ?thesis by (simp add: element_at_def)
  next
    case False
    then show ?thesis by (auto simp: element_at_def)
  qed
  with False show ?thesis by (simp add: getMockAnalysisResult_def Let_def)
qed



lemma getMock_in_catalog:
  assumes "0 \<le> r2" "r2 \<le> 1 - 1 / 2 ^ 53"
  shows "getMockAnalysisResult r1 r2 \<in> Some ` set mockData \<longleftrightarrow> 7 / 10 < r1"
proof (cases "r1 \<le> 7 / 10")
  case True
  with no_food_not_in_mockData show ?thesis by (auto simp: getMockAnalysisResult_def)
next
  case False
  have "0 \<le> \<lfloor>double_round (r2 * 3)\<rfloor>" "\<lfloor>double_round (r2 * 3)\<rfloor> < 3"
    by (simp_all add: draw_index [OF assms])
  with False show ?thesis
    by (simp add: getMockAnalysisResult_def Let_def mockData_length element_at_in_range)
qed

text \<open>
  A draw is a double in \<open>[0, 1)\<close>: it is at most \<open>1 - 2\<^sup>-\<^sup>5\<^sup>3\<close>, and it is above the double
  of the literal \<^verbatim>\<open>0.7\<close> exactly when it is above \<open>7/10\<close>.
\<close>

lemma double_round_half:
  assumes "1 / 2 \<le> x" "x < 1"
  shows "\<exists>k. double_round x = of_int k / 2 ^ 53 \<and> k \<le> 2 ^ 53"
proof -
  define k where "k = round_half_even (x * 2 ^ 53)"
  have d: "double_round x = of_int k / 2 ^ 53"
    by (simp add: double_round_def ulp_half [OF assms] k_def)
  from assms have "x * 2 ^ 53 < 2 ^ 53" by simp
  then have "\<lfloor>x * 2 ^ 53\<rfloor> < (2::int) ^ 53" by (simp add: floor_less_iff)
  with round_half_even_upper [of "x * 2 ^ 53"] have "k \<le> 2 ^ 53"
    unfolding k_def by linarith
  with d show ?thesis by blast
qed

lemma double_draw_below_one:
  assumes "0 \<le> r" "r < 1" "double_round r = r"
  shows "r \<le> 1 - 1 / 2 ^ 53"
proof (cases "r < 1 / 2")
  case True
  then show ?thesis by simp
next
  case False
  with assms double_round_half [of r] obtain k :: int
    where k: "r = of_int k / 2 ^ 53" "k \<le> 2 ^ 53" by auto
  from k(1) assms(2) have "(of_int k :: real) < 2 ^ 53" by simp
  then have "k < 2 ^ 53" by simp
  then have "k \<le> 2 ^ 53 - 1" by simp
  then have "(of_int k :: real) \<le> 2 ^ 53 - 1" by simp
  with k(1) show ?thesis by (simp add: field_simps)
qed

lemma double_draw_threshold:
  assumes "0 \<le> r" "r < 1" "double_round r = r"
  shows "double_round (7 / 10) < r \<longleftrightarrow> 7 / 10 < r"
proof -
  have t: "double_round (7 / 10) = 6305039478318694 / 2 ^ 53"
    by (simp add: double_round_def ulp_half round_half_even_def Let_def)
  show ?thesis
  proof (cases "r < 1 / 2")
    case True
    then show ?thesis unfolding t by simp
  next
    case False
    with assms double_round_half [of r] obtain k :: int
      where k: "r = of_int k / 2 ^ 53" by auto
    have "6305039478318694 / 2 ^ 53 < r \<longleftrightarrow> (6305039478318694::int) < k"
      unfolding k by (simp add: field_simps)
    also have "\<dots> \<longleftrightarrow> (6305039478318695::int) \<le> k" by linarith
    also have "\<dots> \<longleftrightarrow> 7 / 10 < r"
    proof
      assume "(6305039478318695::int) \<le> k"
      then have "(6305039478318695::real) \<le> of_int k" by simp
      then show "7 / 10 < r" unfolding k by (simp add: field_simps)
    next
      assume "7 / 10 < r"
      then have "(6305039478318694::real) < of_int k" unfolding k by (simp add: field_simps)
      then have "(6305039478318694::int) < k" by simp
      then show "(6305039478318695::int) \<le> k" by linarith
    qed
    finally show ?thesis unfolding t .
  qed
qed




section \<open>The client's orchestration\<close>

lemma FoodVisionApp_isValidAPIKey_text_or_falsy:
  "text_or_falsy apiKey \<Longrightarrow> \<exists>valid. FoodVisionApp_isValidAPIKey apiKey provider = Inr valid"
  by (cases apiKey rule: text_or_falsy.cases) (auto simp: FoodVisionApp_isValidAPIKey_def)

lemma analyze_request_fails:
  assumes "outcome = Rejected \<or> (\<exists>resp. outcome = Responded resp \<and> \<not> response_ok resp)"
  shows "\<exists>e. analyze_request parse outcome = Inl e"
  using assms
  by (auto simp: analyze_request_def exn_bind_def response_text_def split: option.splits)

lemma analyze_request_succeeds:
  assumes "outcome = Responded resp" and "response_ok resp" and "body resp = Some t"
    and "parse t = Some analysisData"
  shows "analyze_request parse outcome = Inr analysisData"
  using assms by (simp add: analyze_request_def response_json_def response_text_def exn_bind_def)

lemma analyzeImageWithAI_no_config:
  "\<not> truthy (Some (getAPIConfigFromServer parse config_outcome)) \<Longrightarrow>
     analyzeImageWithAI parse config_outcome outcome r1 r2 imageData =
       Inr (Some Config_Unavailable, getMockAnalysisResult r1 r2)"
  by (simp add: analyzeImageWithAI_def)

lemma analyzeImageWithAI_config:
  assumes "getAPIConfigFromServer parse config_outcome = config"
    and "truthy (Some config)" and "config_provider config = Inr provider"
    and "config_apiKey config provider = Inr apiKey"
    and "FoodVisionApp_isValidAPIKey apiKey provider = Inr valid"
    and "template_literal provider = Inr ()"
  shows "analyzeImageWithAI parse config_outcome outcome r1 r2 imageData =
     (if \<not> valid then Inr (Some Key_Not_Configured, getMockAnalysisResult r1 r2)
      else case analyze_request parse outcome of
             Inr analysisData \<Rightarrow> Inr (None, Some analysisData)
           | Inl error \<Rightarrow> Inr (Some (Provider_Failed error), getMockAnalysisResult r1 r2))"
  using assms by (simp add: analyzeImageWithAI_def exn_bind_def split: sum.split)

lemma analyzeImageWithAI_rejects:
  assumes "getAPIConfigFromServer parse config_outcome = config"
    and "truthy (Some config)" and "config_provider config = Inr provider"
    and "config_apiKey config provider = Inr apiKey"
    and "FoodVisionApp_isValidAPIKey apiKey provider = Inl e \<or> template_literal provider = Inl e"
  shows "\<exists>e'. analyzeImageWithAI parse config_outcome outcome r1 r2 imageData = Inl e'"
  using assms
  by (cases "FoodVisionApp_isValidAPIKey apiKey provider")
     (auto simp: analyzeImageWithAI_def exn_bind_def)

lemma getMock_defined:
  assumes "0 \<le> r2" "r2 \<le> 1 - 1 / 2 ^ 53"
  shows "\<exists>v. getMockAnalysisResult r1 r2 = Some v"
proof (cases "r1 \<le> 7 / 10")
  case True
  with getMock_no_food [of r1 r2] show ?thesis by blast
next
  case False
  with getMock_in_catalog [OF assms, of r1] show ?thesis by auto
qed

lemma served_config:
  "truthy (Some (config_route env))
   \<and> (\<exists>provider apiKey. config_provider (config_route env) = Inr provider
         \<and> config_apiKey (config_route env) provider = Inr apiKey \<and> text_or_falsy apiKey
         \<and> template_literal provider = Inr ())"
proof -
  define d where "d = (case DEFAULT_AI_PROVIDER env of
      None \<Rightarrow> ''gemini'' | Some p \<Rightarrow> if p = [] then ''gemini'' else p)"
  have d: "d \<noteq> []"
    "config_route env = JObj (json_member ''perplexityApiKey'' (PERPLEXITY_API_KEY env)
             @ json_member ''geminiApiKey'' (GEMINI_API_KEY env)
             @ [(''defaultProvider'', JStr d)])"
    by (simp_all add: d_def config_route_def Let_def split: option.split)
  have p: "config_provider (config_route env) = Inr (Some (JStr d))"
    using d by (cases "PERPLEXITY_API_KEY env"; cases "GEMINI_API_KEY env")
      (simp_all add: config_provider_def exn_bind_def json_member_def)
  have "\<exists>apiKey. config_apiKey (config_route env) (Some (JStr d)) = Inr apiKey \<and> text_or_falsy apiKey"
    using d by (cases "PERPLEXITY_API_KEY env"; cases "GEMINI_API_KEY env")
      (simp_all add: config_apiKey_def json_member_def)
  moreover have "template_literal (Some (JStr d)) = Inr ()" by (simp add: template_literal_def)
  ultimately show ?thesis using p d by auto
qed

text \<open>
  Claim C2, as the code has it. Whenever the configuration that was fetched is not
  truthy, or selects a provider that converts to a string and a key that is a string or
  not truthy, \<^verbatim>\<open>analyzeImageWithAI\<close> resolves, for every image, every answer of the
  collaborator and every draw. The object that the handler of \<^verbatim>\<open>/api/config\<close> sends is
  such a configuration (lemma \<open>served_config\<close>). Without a configuration it resolves with the mock result;
  when the key is absent or \<^verbatim>\<open>isValidAPIKey\<close> rejects it, it resolves with the mock result;
  when the key is valid and the request throws, as it does when the call is rejected or
  the status is not from 200 to 299, it resolves with the mock result; when the key is
  valid and the request returns, as it does on a status from 200 to 299 with a body that
  parses, it resolves with the parsed body. With a second draw that is a double in
  \<open>[0, 1)\<close> the mock result is a value.
\<close>

theorem analyzeImageWithAI_always_resolves:
  assumes "getAPIConfigFromServer parse config_outcome = config"
    and "truthy (Some config) \<longrightarrow>
             (\<exists>provider apiKey. config_provider config = Inr provider
                \<and> config_apiKey config provider = Inr apiKey \<and> text_or_falsy apiKey
                \<and> template_literal provider = Inr ())"
  shows "(\<exists>reason r. analyzeImageWithAI parse config_outcome outcome r1 r2 imageData = Inr (reason, r))
     \<and> (\<not> truthy (Some config) \<longrightarrow>
          analyzeImageWithAI parse config_outcome outcome r1 r2 imageData =
            Inr (Some Config_Unavailable, getMockAnalysisResult r1 r2))
     \<and> (\<forall>provider apiKey. truthy (Some config) \<and> config_provider config = Inr provider
            \<and> config_apiKey config provider = Inr apiKey
            \<and> FoodVisionApp_isValidAPIKey apiKey provider = Inr False \<longrightarrow>
          analyzeImageWithAI parse config_outcome outcome r1 r2 imageData =
            Inr (Some Key_Not_Configured, getMockAnalysisResult r1 r2))
     \<and> (\<forall>provider apiKey error. truthy (Some config) \<and> config_provider config = Inr provider
            \<and> config_apiKey config provider = Inr apiKey
            \<and> FoodVisionApp_isValidAPIKey apiKey provider = Inr True
            \<and> analyze_request parse outcome = Inl error \<longrightarrow>
          analyzeImageWithAI parse config_outcome outcome r1 r2 imageData =
            Inr (Some (Provider_Failed error), getMockAnalysisResult r1 r2))
     \<and> (\<forall>provider apiKey analysisData. truthy (Some config) \<and> config_provider config = Inr provider
            \<and> config_apiKey config provider = Inr apiKey
            \<and> FoodVisionApp_isValidAPIKey apiKey provider = Inr True
            \<and> analyze_request parse outcome = Inr analysisData \<longrightarrow>
          analyzeImageWithAI parse config_outcome outcome r1 r2 imageData =
            Inr (None, Some analysisData))
     \<and> (outcome = Rejected \<or> (\<exists>resp. outcome = Responded resp \<and> \<not> response_ok resp) \<longrightarrow>
          (\<exists>error. analyze_request parse outcome = Inl error))
     \<and> (\<forall>resp t analysisData. outcome = Responded resp \<and> response_ok resp \<and> body resp = Some t
            \<and> parse t = Some analysisData \<longrightarrow>
          analyze_request parse outcome = Inr analysisData)
     \<and> FoodVisionApp_isValidAPIKey None provider' = Inr False
     \<and> (0 \<le> r2 \<and> r2 \<le> 1 - 1 / 2 ^ 53 \<longrightarrow> (\<exists>v. getMockAnalysisResult r1 r2 = Some v))"
proof (intro conjI allI impI)
  note config = assms(1)
  have branch: "analyzeImageWithAI parse config_outcome outcome r1 r2 imageData =
     (if \<not> valid then Inr (Some Key_Not_Configured, getMockAnalysisResult r1 r2)
      else case analyze_request parse outcome of
             Inr analysisData \<Rightarrow> Inr (None, Some analysisData)
           | Inl error \<Rightarrow> Inr (Some (Provider_Failed error), getMockAnalysisResult r1 r2))"
    if "truthy (Some config)" "config_provider config = Inr provider"
      "config_apiKey config provider = Inr apiKey"
      "FoodVisionApp_isValidAPIKey apiKey provider = Inr valid" for provider apiKey valid
  proof -
    from assms(2) that(1) obtain p a where pa: "config_provider config = Inr p"
      "config_apiKey config p = Inr a" "template_literal p = Inr ()" by blast
    from pa(1) that(2) have "p = provider" by simp
    with pa(3) have "template_literal provider = Inr ()" by simp
    with that show ?thesis by (rule analyzeImageWithAI_config [OF config])
  qed
  show "\<exists>reason r. analyzeImageWithAI parse config_outcome outcome r1 r2 imageData = Inr (reason, r)"
  proof (cases "truthy (Some config)")
    case False
    then show ?thesis by (simp add: analyzeImageWithAI_no_config config)
  next
    case True
    with assms(2) obtain provider apiKey where c: "config_provider config = Inr provider"
      "config_apiKey config provider = Inr apiKey" "text_or_falsy apiKey" by blast
    from FoodVisionApp_isValidAPIKey_text_or_falsy [OF c(3)]
    obtain valid where v: "FoodVisionApp_isValidAPIKey apiKey provider = Inr valid" by blast
    show ?thesis
      unfolding branch [OF True c(1,2) v]
      by (cases "analyze_request parse outcome") simp_all
  qed
  show "analyzeImageWithAI parse config_outcome outcome r1 r2 imageData =
          Inr (Some Config_Unavailable, getMockAnalysisResult r1 r2)" if "\<not> truthy (Some config)"
    using that by (simp add: analyzeImageWithAI_no_config config)
  show "analyzeImageWithAI parse config_outcome outcome r1 r2 imageData =
          Inr (Some Key_Not_Configured, getMockAnalysisResult r1 r2)"
    if "truthy (Some config) \<and> config_provider config = Inr provider
        \<and> config_apiKey config provider = Inr apiKey
        \<and> FoodVisionApp_isValidAPIKey apiKey provider = Inr False" for provider apiKey
    using that branch [of provider apiKey False] by simp
  show "analyzeImageWithAI parse config_outcome outcome r1 r2 imageData =
          Inr (Some (Provider_Failed error), getMockAnalysisResult r1 r2)"
    if "truthy (Some config) \<and> config_provider config = Inr provider
        \<and> config_apiKey config provider = Inr apiKey
        \<and> FoodVisionApp_isValidAPIKey apiKey provider = Inr True
        \<and> analyze_request parse outcome = Inl error" for provider apiKey error
    using that branch [of provider apiKey True] by simp
  show "analyzeImageWithAI parse config_outcome outcome r1 r2 imageData =
          Inr (None, Some analysisData)"
    if "truthy (Some config) \<and> config_provider config = Inr provider
        \<and> config_apiKey config provider = Inr apiKey
        \<and> FoodVisionApp_isValidAPIKey apiKey provider = Inr True
        \<and> analyze_request parse outcome = Inr analysisData" for provider apiKey analysisData
    using that branch [of provider apiKey True] by simp
  show "\<exists>error. analyze_request parse outcome = Inl error"
    if "outcome = Rejected \<or> (\<exists>resp. outcome = Responded resp \<and> \<not> response_ok resp)"
    using that by (rule analyze_request_fails)
  show "analyze_request parse outcome = Inr analysisData"
    if "outcome = Responded resp \<and> response_ok resp \<and> body resp = Some t
        \<and> parse t = Some analysisData" for resp t analysisData
    using that analyze_request_succeeds [of outcome resp t parse analysisData] by blast
  show "FoodVisionApp_isValidAPIKey None provider' = Inr False"
    by (simp add: FoodVisionApp_isValidAPIKey_def)
  show "\<exists>v. getMockAnalysisResult r1 r2 = Some v" if "0 \<le> r2 \<and> r2 \<le> 1 - 1 / 2 ^ 53"
    using that getMock_defined by blast
qed

theorem analyzeImageWithAI_always_resolves_witness:
  \<open>analyzeImageWithAI json_parse
      (Responded \<lparr>status = 200, body = Some ''{"geminiApiKey":"short","defaultProvider":"gemini"}''\<rparr>)
      Rejected (1/2) (1/2) ''data:image/jpeg;base64,Zm9v''
     = Inr (Some Key_Not_Configured, Some no_food_result)
   \<and> analyzeImageWithAI json_parse
      (Responded \<lparr>status = 200,
         body = Some ''{"geminiApiKey":"AIzaSyTESTKEY1234567890","defaultProvider":"gemini"}''\<rparr>)
      (Responded \<lparr>status = 503, body = Some ''unavailable''\<rparr>) (1/2) (1/2) ''data:image/jpeg;base64,Zm9v''
     = Inr (Some (Provider_Failed (Error ''Analysis failed: 503 - unavailable'')), Some no_food_result)
   \<and> analyzeImageWithAI json_parse
      (Responded \<lparr>status = 200,
         body = Some ''{"geminiApiKey":"AIzaSyTESTKEY1234567890","defaultProvider":"gemini"}''\<rparr>)
      (Responded \<lparr>status = 200, body = Some ''{"foodDetected":true,"rating":2}''\<rparr>)
      (1/2) (1/2) ''data:image/jpeg;base64,Zm9v''
     = Inr (None, Some (JObj [(''foodDetected'', JBool True), (''rating'', JNum 2)]))
   \<and> analyzeImageWithAI json_parse Rejected Rejected (1/2) (1/2) ''data:image/jpeg;base64,Zm9v''
     = Inr (Some Config_Unavailable, Some no_food_result)\<close>
proof -
  let ?e1 = "\<lparr>GEMINI_API_KEY = Some ''short'', PERPLEXITY_API_KEY = None, DEFAULT_AI_PROVIDER = None\<rparr>"
  let ?e2 = "\<lparr>GEMINI_API_KEY = Some ''AIzaSyTESTKEY1234567890'', PERPLEXITY_API_KEY = None,
         DEFAULT_AI_PROVIDER = None\<rparr>"
  let ?c1 = \<open>Responded \<lparr>status = 200, body = Some ''{"geminiApiKey":"short","defaultProvider":"gemini"}''\<rparr>\<close>
  let ?c2 = \<open>Responded \<lparr>status = 200,
         body = Some ''{"geminiApiKey":"AIzaSyTESTKEY1234567890","defaultProvider":"gemini"}''\<rparr>\<close>
  let ?out = "Responded \<lparr>status = 503, body = Some ''unavailable''\<rparr>"
  let ?ok = \<open>Responded \<lparr>status = 200, body = Some ''{"foodDetected":true,"rating":2}''\<rparr>\<close>
  have g1: "getAPIConfigFromServer json_parse ?c1 = config_route ?e1" by code_simp
  have g2: "getAPIConfigFromServer json_parse ?c2 = config_route ?e2" by code_simp
  have g3: "getAPIConfigFromServer json_parse Rejected = JNull"
    by (simp add: getAPIConfigFromServer_def)
  have h1: "truthy (Some (config_route ?e1)) \<longrightarrow>
             (\<exists>provider apiKey. config_provider (config_route ?e1) = Inr provider
                \<and> config_apiKey (config_route ?e1) provider = Inr apiKey \<and> text_or_falsy apiKey
                \<and> template_literal provider = Inr ())"
    using served_config [of ?e1] by blast
  have h2: "truthy (Some (config_route ?e2)) \<longrightarrow>
             (\<exists>provider apiKey. config_provider (config_route ?e2) = Inr provider
                \<and> config_apiKey (config_route ?e2) provider = Inr apiKey \<and> text_or_falsy apiKey
                \<and> template_literal provider = Inr ())"
    using served_config [of ?e2] by blast
  have h3: "truthy (Some JNull) \<longrightarrow>
             (\<exists>provider apiKey. config_provider JNull = Inr provider
                \<and> config_apiKey JNull provider = Inr apiKey \<and> text_or_falsy apiKey
                \<and> template_literal provider = Inr ())"
    by simp
  have t1: "truthy (Some (config_route ?e1))" and t2: "truthy (Some (config_route ?e2))"
    using served_config by blast+
  have p1: "config_provider (config_route ?e1) = Inr (Some (JStr ''gemini''))"
    by (simp add: config_route_def config_provider_def json_member_def exn_bind_def)
  have p2: "config_provider (config_route ?e2) = Inr (Some (JStr ''gemini''))"
    by (simp add: config_route_def config_provider_def json_member_def exn_bind_def)
  have k1: "config_apiKey (config_route ?e1) (Some (JStr ''gemini'')) = Inr (Some (JStr ''short''))"
    by (simp add: config_route_def config_apiKey_def json_member_def)
  have k2: "config_apiKey (config_route ?e2) (Some (JStr ''gemini'')) = Inr (Some (JStr ''AIzaSyTESTKEY1234567890''))"
    by (simp add: config_route_def config_apiKey_def json_member_def)
  have v1: "FoodVisionApp_isValidAPIKey (Some (JStr ''short'')) (Some (JStr ''gemini'')) = Inr False"
    by (simp add: FoodVisionApp_isValidAPIKey_def)
  have v2: "FoodVisionApp_isValidAPIKey (Some (JStr ''AIzaSyTESTKEY1234567890'')) (Some (JStr ''gemini'')) = Inr True"
    by (simp add: FoodVisionApp_isValidAPIKey_def)
  have r: "analyze_request json_parse ?out = Inl (Error ''Analysis failed: 503 - unavailable'')"
    by code_simp
  have s: "analyze_request json_parse ?ok = Inr (JObj [(''foodDetected'', JBool True), (''rating'', JNum 2)])"
    by code_simp
  have m: "getMockAnalysisResult (1/2) (1/2) = Some no_food_result"
    by (simp add: getMockAnalysisResult_def)
  from analyzeImageWithAI_always_resolves [OF g1 h1, where outcome = Rejected
      and ?r1.0 = "1/2" and ?r2.0 = "1/2" and imageData = "''data:image/jpeg;base64,Zm9v''"]
    t1 p1 k1 v1
  have a: "analyzeImageWithAI json_parse ?c1 Rejected (1/2) (1/2) ''data:image/jpeg;base64,Zm9v''
     = Inr (Some Key_Not_Configured, getMockAnalysisResult (1/2) (1/2))"
    by blast
  from analyzeImageWithAI_always_resolves [OF g2 h2, where outcome = ?out
      and ?r1.0 = "1/2" and ?r2.0 = "1/2" and imageData = "''data:image/jpeg;base64,Zm9v''"]
    t2 p2 k2 v2 r
  have b: "analyzeImageWithAI json_parse ?c2 ?out (1/2) (1/2) ''data:image/jpeg;base64,Zm9v''
     = Inr (Some (Provider_Failed (Error ''Analysis failed: 503 - unavailable'')), getMockAnalysisResult (1/2) (1/2))"
    by blast
  from analyzeImageWithAI_always_resolves [OF g2 h2, where outcome = ?ok
      and ?r1.0 = "1/2" and ?r2.0 = "1/2" and imageData = "''data:image/jpeg;base64,Zm9v''"]
    t2 p2 k2 v2 s
  have c: "analyzeImageWithAI json_parse ?c2 ?ok (1/2) (1/2) ''data:image/jpeg;base64,Zm9v''
     = Inr (None, Some (JObj [(''foodDetected'', JBool True), (''rating'', JNum 2)]))"
    by blast
  from analyzeImageWithAI_always_resolves [OF g3 h3, where outcome = Rejected
      and ?r1.0 = "1/2" and ?r2.0 = "1/2" and imageData = "''data:image/jpeg;base64,Zm9v''"]
  have d: "analyzeImageWithAI json_parse Rejected Rejected (1/2) (1/2) ''data:image/jpeg;base64,Zm9v''
     = Inr (Some Config_Unavailable, getMockAnalysisResult (1/2) (1/2))"
    by simp
  from a b c d m show ?thesis by simp
qed

text \<open>
  Claim C2 as the specification states it fails: with a configuration whose Gemini key
  is the number 42, \<^verbatim>\<open>apiKey.startsWith\<close> throws outside the \<^verbatim>\<open>try\<close> block; with a
  configuration whose provider is an object with a member \<^verbatim>\<open>toString\<close>, the template
  literal at line 318 throws when the key is not valid, and the one at line 331 throws
  when it is. In each case \<^verbatim>\<open>analyzeImageWithAI\<close> rejects with a \<^verbatim>\<open>TypeError\<close>.
\<close>

theorem analyzeImageWithAI_rejects_counterexample:
  \<open>analyzeImageWithAI json_parse
      (Responded \<lparr>status = 200, body = Some ''{"geminiApiKey":42}''\<rparr>)
      Rejected (1/2) (1/2) ''data:image/jpeg;base64,Zm9v'' = Inl TypeError
   \<and> analyzeImageWithAI json_parse
      (Responded \<lparr>status = 200, body = Some ''{"defaultProvider":{"toString":0}}''\<rparr>)
      Rejected (1/2) (1/2) ''data:image/jpeg;base64,Zm9v'' = Inl TypeError
   \<and> analyzeImageWithAI json_parse
      (Responded \<lparr>status = 200, body = Some
         ''{"defaultProvider":{"toString":0},"perplexityApiKey":"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"}''\<rparr>)
      (Responded \<lparr>status = 200, body = Some ''{"foodDetected":true}''\<rparr>)
      (1/2) (1/2) ''data:image/jpeg;base64,Zm9v'' = Inl TypeError\<close>
proof -
  have g1: \<open>getAPIConfigFromServer json_parse
      (Responded \<lparr>status = 200, body = Some ''{"geminiApiKey":42}''\<rparr>)
        = JObj [(''geminiApiKey'', JNum 42)]\<close> by code_simp
  have g2: \<open>getAPIConfigFromServer json_parse
      (Responded \<lparr>status = 200, body = Some ''{"defaultProvider":{"toString":0}}''\<rparr>)
        = JObj [(''defaultProvider'', JObj [(''toString'', JNum 0)])]\<close> by code_simp
  have g3: \<open>getAPIConfigFromServer json_parse
      (Responded \<lparr>status = 200, body = Some
         ''{"defaultProvider":{"toString":0},"perplexityApiKey":"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"}''\<rparr>)
        = JObj [(''defaultProvider'', JObj [(''toString'', JNum 0)]),
                (''perplexityApiKey'', JStr ''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'')]\<close>
    by code_simp
  show ?thesis
    unfolding analyzeImageWithAI_def g1 g2 g3
    by (simp add: config_provider_def config_apiKey_def FoodVisionApp_isValidAPIKey_def
        placeholder_key_def template_literal_def exn_bind_def)
qed

end
